theory Spec2Isabelle
  imports Complex_Main "HOL-Library.Sublist" "HOL-Library.Multiset" "HOL-Library.List_Lexorder"
begin

section \<open>Fuzzy subsequence match\<close>

text \<open>
  The command palette (class \<open>Palette\<close>) works on JavaScript strings. A string is modelled
  as a list of code units (\<^typ>\<open>string\<close>), indexed from 0 as \<open>s[i]\<close> is.

  \<^verbatim>\<open>
  _fuzzyMatch(query, text) {
      if (query.length === 0) return true
      let qi = 0, ti = 0
      while (qi < query.length && ti < text.length) {
          if (query[qi] === text[ti]) qi++
          ti++
      }
      return qi === query.length
  }
  \<close>
  The loop is the function \<open>fuzzyLoop\<close> on the two cursors; the text cursor grows in
  every round, which is the termination measure.
\<close>

function fuzzyLoop :: "string \<Rightarrow> string \<Rightarrow> nat \<Rightarrow> nat \<Rightarrow> bool" where
  "fuzzyLoop query text qi ti =
     (if qi < length query \<and> ti < length text
      then (if query ! qi = text ! ti
            then fuzzyLoop query text (qi + 1) (ti + 1)
            else fuzzyLoop query text qi (ti + 1))
      else qi = length query)"
  by pat_completeness auto
termination
  by (relation "measure (\<lambda>(query, text, qi, ti). length text - ti)") auto

definition fuzzyMatch :: "string \<Rightarrow> string \<Rightarrow> bool" where
  "fuzzyMatch query text =
     (if length query = 0 then True else fuzzyLoop query text 0 0)"

section \<open>Strings of the host language\<close>

text \<open>
  The palette calls the string methods of the JavaScript library: \<open>trim\<close>,
  \<open>toLowerCase\<close>, \<open>startsWith\<close>, \<open>includes\<close> (here \<open>includes_str\<close>) and
  \<open>indexOf\<close>. They are modelled after ECMAScript on strings whose code units are
  below 256 (ASCII and Latin-1), which is what \<^typ>\<open>char\<close> holds: there
  \<open>toLowerCase\<close> maps code unit by code unit and keeps the length, and every code
  point is one code unit.
\<close>

definition isWhiteSpace :: "char \<Rightarrow> bool" where
  \<comment> \<open>TAB, LF, VT, FF, CR, SP and NBSP: the white space and line terminators below 256\<close>
  "isWhiteSpace c = (of_char c \<in> {9, 10, 11, 12, 13, 32, 160 :: nat})"

definition trim :: "string \<Rightarrow> string" where
  "trim s = rev (dropWhile isWhiteSpace (rev (dropWhile isWhiteSpace s)))"

definition isUpper :: "char \<Rightarrow> bool" where
  \<comment> \<open>A-Z, and the Latin-1 capitals U+00C0..U+00DE without the multiplication sign U+00D7\<close>
  "isUpper c = (let n = of_char c :: nat in
     (65 \<le> n \<and> n \<le> 90) \<or> (192 \<le> n \<and> n \<le> 214) \<or> (216 \<le> n \<and> n \<le> 222))"

definition lowerChar :: "char \<Rightarrow> char" where
  "lowerChar c = (if isUpper c then char_of (of_char c + 32 :: nat) else c)"

definition toLowerCase :: "string \<Rightarrow> string" where
  "toLowerCase s = map lowerChar s"

definition startsWith :: "string \<Rightarrow> string \<Rightarrow> bool" where
  "startsWith s q = (take (length q) s = q)"

fun includes_str :: "string \<Rightarrow> string \<Rightarrow> bool" where
  "includes_str [] q = (q = [])"
| "includes_str (c # cs) q = (startsWith (c # cs) q \<or> includes_str cs q)"



text \<open>
  \<open>xs.sort(compareFn)\<close> sorts by a comparator whose sign orders two elements. The
  language requires the sort to be stable, so for a consistent comparator the result is
  determined: it is the one of this insertion sort, which puts an element before the
  first later element that the comparator does not place before it. (For an inconsistent
  comparator the language fixes only that the result is a permutation.)
\<close>

fun insertBy :: "('a \<Rightarrow> 'a \<Rightarrow> int) \<Rightarrow> 'a \<Rightarrow> 'a list \<Rightarrow> 'a list" where
  "insertBy cmp x [] = [x]"
| "insertBy cmp x (y # ys) = (if cmp x y \<le> 0 then x # y # ys else y # insertBy cmp x ys)"

fun arraySort :: "('a \<Rightarrow> 'a \<Rightarrow> int) \<Rightarrow> 'a list \<Rightarrow> 'a list" where
  "arraySort cmp [] = []"
| "arraySort cmp (x # xs) = insertBy cmp x (arraySort cmp xs)"

text \<open>
  \<open>xs.findIndex(pred)\<close>: the first index whose element satisfies the predicate, or -1.
\<close>

fun findIndexFrom :: "('a \<Rightarrow> bool) \<Rightarrow> 'a list \<Rightarrow> int \<Rightarrow> int" where
  "findIndexFrom pred [] i = - 1"
| "findIndexFrom pred (x # xs) i = (if pred x then i else findIndexFrom pred xs (i + 1))"

definition findIndex :: "('a \<Rightarrow> bool) \<Rightarrow> 'a list \<Rightarrow> int" where
  "findIndex pred xs = findIndexFrom pred xs 0"

section \<open>Entries, options and the palette\<close>

text \<open>
  What calling an entry's \<open>run(window, entry)\<close> does: it returns nothing, throws, or
  returns a promise that later fulfils (\<open>Deferred None\<close>) or rejects with an error
  (\<open>Deferred (Some err)\<close>).
\<close>

datatype runResult = Returns | Throws string | Deferred "string option"

text \<open>
  \<open>Palette.Entry\<close>: \<open>id\<close> is a string or \<open>false\<close> (the default; \<open>None\<close> here),
  \<open>title\<close> is required, the other texts are optional. \<open>run\<close> is \<open>None\<close> when the field
  is not a function. \<open>extra\<close> holds the numeric fields a population source adds for
  itself (the domain picker's \<open>count\<close>).
\<close>

record entry =
  entryId :: "string option"
  title :: string
  subtitle :: "string option"
  displayTitle :: "string option"
  displaySubtitle :: "string option"
  run :: "runResult option"
  extra :: "(string \<times> int) list"

datatype trigger = OnInit | OnFirstShow | OnShow

record options =
  minQueryLength :: int
  fuzzy :: bool
  highlight :: bool
  initialSortFunc :: "(entry \<Rightarrow> entry \<Rightarrow> int) option"
  populateBehavior :: "trigger list"
  hostAllowList :: "string list option"

datatype logLine = ConsoleError string string | ConsoleWarn string

text \<open>
  The fields of a \<open>Palette\<close> that its methods read and write. \<open>inputValue\<close> is
  \<open>this.input.value\<close>, \<open>dialogOpen\<close> is \<open>this.dialog.open\<close>, \<open>bodyScrollLocked\<close>
  says whether the body's \<open>overflow\<close> style is \<open>hidden\<close>. \<open>console\<close> collects what
  the palette writes with \<open>console.error\<close> and \<open>console.warn\<close>, \<open>effects\<close> the calls
  it makes to the outside in their order, and \<open>pendingRejections\<close> the rejected promises
  on which it has registered a handler that has not run yet. The rows built in the
  document (\<open>_renderResults\<close>, the selection marker, scrolling) are not part of the model.
\<close>

datatype effect = HideCalled | RunInvoked entry

record palette =
  options :: options
  commands :: "entry list"
  filtered :: "entry list"
  selectedIndex :: int
  ranOnce :: bool
  inputValue :: string
  dialogOpen :: bool
  bodyScrollLocked :: bool
  console :: "logLine list"
  effects :: "effect list"
  pendingRejections :: "string list"

section \<open>Ranking and filtering\<close>

text \<open>
  \<^verbatim>\<open>
  const title = (cmd.title || '').toLowerCase()
  const subtitle = (cmd.subtitle || '').toLowerCase()
  let score = 0
  if (title === query) score += 100
  if (title.startsWith(query)) score += 75
  if (title.includes(query)) score += 50
  if (subtitle.includes(query)) score += 30
  if (this.options.fuzzy && this._fuzzyMatch(query, title)) score += 10
  \<close>
  \<open>query\<close> is the lowercased query.
\<close>

definition score :: "bool \<Rightarrow> string \<Rightarrow> entry \<Rightarrow> int" where
  "score fuzzyOn query cmd =
     (let title' = toLowerCase (title cmd);
          subtitle' = toLowerCase (case subtitle cmd of None \<Rightarrow> [] | Some s \<Rightarrow> s)
      in (if title' = query then 100 else 0)
       + (if startsWith title' query then 75 else 0)
       + (if includes_str title' query then 50 else 0)
       + (if includes_str subtitle' query then 30 else 0)
       + (if fuzzyOn \<and> fuzzyMatch query title' then 10 else 0))"

text \<open>
  The comparator of the sort in \<open>_filterCommands\<close>,
  \<^verbatim>\<open>(a, b) => b.score - a.score || a.cmd.title.localeCompare(b.cmd.title)\<close>.
  \<open>localeCompare\<close> is the collation of the host's locale, which the repository does not
  fix: it is the parameter \<open>collate\<close> of everything that filters.
\<close>

definition scoredCompare ::
  "(string \<Rightarrow> string \<Rightarrow> int) \<Rightarrow> entry \<times> int \<Rightarrow> entry \<times> int \<Rightarrow> int" where
  "scoredCompare collate a b =
     (if snd b - snd a \<noteq> 0 then snd b - snd a else collate (title (fst a)) (title (fst b)))"

definition filterCommands :: "(string \<Rightarrow> string \<Rightarrow> int) \<Rightarrow> palette \<Rightarrow> string \<Rightarrow> entry list" where
  "filterCommands collate p q =
     (if q = [] then commands p
      else let query = toLowerCase q;
               scored = filter (\<lambda>x. snd x > 0)
                          (map (\<lambda>cmd. (cmd, score (fuzzy (options p)) query cmd)) (commands p))
           in map fst (arraySort (scoredCompare collate) scored))"

text \<open>
  \<^verbatim>\<open>
  _onQueryChange() {
      const q = this.input.value.trim()
      let results
      if (q.length >= this.options.minQueryLength) results = this._filterCommands(q)
      else results = this.commands.slice()
      this.filtered = results
      this.selectedIndex = Math.min(this.selectedIndex, Math.max(0, results.length - 1))
      if (this.selectedIndex < 0) this.selectedIndex = 0
      this._renderResults(q)
  }
  \<close>
\<close>

definition onQueryChange :: "(string \<Rightarrow> string \<Rightarrow> int) \<Rightarrow> palette \<Rightarrow> palette" where
  "onQueryChange collate p =
     (let q = trim (inputValue p);
          results = (if int (length q) \<ge> minQueryLength (options p)
                     then filterCommands collate p q else commands p);
          p1 = p\<lparr>filtered := results,
                 selectedIndex := min (selectedIndex p) (max 0 (int (length results) - 1))\<rparr>
      in if selectedIndex p1 < 0 then p1\<lparr>selectedIndex := 0\<rparr> else p1)"


text \<open>
  The order that \<open>_filterCommands\<close> leaves its result in: a higher score first, and for
  equal scores the title that the collation does not place after the other.
\<close>

definition rankedBefore ::
  "(string \<Rightarrow> string \<Rightarrow> int) \<Rightarrow> (entry \<Rightarrow> int) \<Rightarrow> entry \<Rightarrow> entry \<Rightarrow> bool" where
  "rankedBefore collate sc a b =
     (sc a > sc b \<or> (sc a = sc b \<and> collate (title a) (title b) \<le> 0))"

definition queryScore :: "palette \<Rightarrow> entry \<Rightarrow> int" where
  \<comment> \<open>the score of an entry for the query that is in the input field\<close>
  "queryScore p = score (fuzzy (options p)) (toLowerCase (trim (inputValue p)))"

text \<open>
  A collation for the examples. Hosts compare by locale (Firefox through ICU): on strings
  of ASCII letters, the letters are compared first without regard to case, and only when
  they are all equal does case decide, the lowercase letter first. \<open>sortKey\<close> builds the
  key of such a comparison: the case-blind weights, a separator below every weight, then
  the case weights. \<open>letterCollate\<close> compares keys. On strings of ASCII letters it is what
  \<open>localeCompare\<close> gives in such a host; on other strings it is still a consistent order.
\<close>

definition sortKey :: "string \<Rightarrow> nat list" where
  "sortKey s = map (\<lambda>c. of_char (lowerChar c) + 1) s @ [0] @ map (\<lambda>c. if isUpper c then 1 else 0) s"

fun keyCompare :: "nat list \<Rightarrow> nat list \<Rightarrow> int" where
  "keyCompare [] [] = 0"
| "keyCompare [] (y # ys) = - 1"
| "keyCompare (x # xs) [] = 1"
| "keyCompare (x # xs) (y # ys) =
     (if x < y then - 1 else if y < x then 1 else keyCompare xs ys)"

definition letterCollate :: "string \<Rightarrow> string \<Rightarrow> int" where
  "letterCollate s t = keyCompare (sortKey s) (sortKey t)"

text \<open>
  The order of the code units, case-sensitive and lexicographic: the first position at
  which two strings differ decides, and a proper prefix comes first.
\<close>

fun codeUnitLess :: "string \<Rightarrow> string \<Rightarrow> bool" where
  "codeUnitLess [] [] = False"
| "codeUnitLess [] (d # t) = True"
| "codeUnitLess (c # s) [] = False"
| "codeUnitLess (c # s) (d # t) = ((of_char c :: nat) < of_char d \<or> (c = d \<and> codeUnitLess s t))"

text \<open>
  Entries and palettes for the examples. The options are the constructor's defaults.
  \<open>tiePalette\<close> and \<open>tabsPalette\<close> are palettes whose commands are set and into whose
  input field a query has just been typed, before \<open>_onQueryChange\<close> runs.
\<close>

definition titled :: "string \<Rightarrow> entry" where
  "titled t = \<lparr>entryId = None, title = t, subtitle = None, displayTitle = None,
     displaySubtitle = None, run = None, extra = []\<rparr>"

definition defaultOptions :: options where
  "defaultOptions = \<lparr>minQueryLength = 0, fuzzy = True, highlight = True,
     initialSortFunc = None, populateBehavior = [OnFirstShow], hostAllowList = None\<rparr>"

definition newPalette :: "options \<Rightarrow> palette" where
  \<comment> \<open>the fields as the constructor sets them\<close>
  "newPalette opts = \<lparr>options = opts, commands = [], filtered = [], selectedIndex = 0,
     ranOnce = False, inputValue = [], dialogOpen = False, bodyScrollLocked = False,
     console = [], effects = [], pendingRejections = []\<rparr>"

definition tiePalette :: palette where
  "tiePalette = (newPalette defaultOptions)
     \<lparr>commands := [titled ''Xb'', titled ''xa''], inputValue := ''x''\<rparr>"

definition tabsPalette :: palette where
  "tabsPalette = (newPalette defaultOptions)
     \<lparr>commands := [titled ''Open Tab'', titled ''Close Tab'', titled ''New Window''],
      inputValue := '' tab ''\<rparr>"

section \<open>Selection\<close>

text \<open>
  \<^verbatim>\<open>
  _setSelectedIndex(i) {
      this.selectedIndex = Math.max(0, Math.min(i, this.filtered.length - 1))
      ... // marks the selected row and scrolls it into view
  }
  _moveSelection(delta) {
      if (this.filtered.length === 0) return
      const newIndex = (this.selectedIndex + delta + this.filtered.length) % this.filtered.length
      this._setSelectedIndex(newIndex)
  }
  \<close>
  The operator \<open>%\<close> of JavaScript is the remainder of the truncating division: its
  result has the sign of the dividend (\<open>-2 % 3\<close> is \<open>-2\<close>).

  The numbers of JavaScript are IEEE doubles. The selected index, \<open>delta\<close> and the
  length are integers here, and \<open>+\<close> gives the double nearest to the sum:
  \<open>toDouble\<close> rounds an integer to 53 significant bits, a tie to the even one. Below
  \<open>2^53\<close> (\<open>isSafeInteger\<close>) every integer is a double and the sum is exact. The sum
  of a double and a length cannot reach the largest double, so there is no overflow.
  \<open>%\<close>, \<open>Math.min\<close> and \<open>Math.max\<close> are exact.
\<close>

fun bitLength :: "nat \<Rightarrow> nat" where
  "bitLength n = (if n = 0 then 0 else Suc (bitLength (n div 2)))"

definition toDouble :: "int \<Rightarrow> int" where
  "toDouble x =
     (let m = nat \<bar>x\<bar> in
      if m < 2 ^ 53 then x
      else let k = bitLength m - 53;
               q = m div 2 ^ k;
               r = m mod 2 ^ k;
               q' = (if 2 * r > 2 ^ k \<or> (2 * r = 2 ^ k \<and> odd q) then q + 1 else q)
           in sgn x * int (q' * 2 ^ k))"

definition isSafeInteger :: "int \<Rightarrow> bool" where
  "isSafeInteger x = (\<bar>x\<bar> < 2 ^ 53)"

definition jsAdd :: "int \<Rightarrow> int \<Rightarrow> int" where
  "jsAdd a b = toDouble (a + b)"

definition jsRem :: "int \<Rightarrow> int \<Rightarrow> int" where
  "jsRem a b = sgn a * (\<bar>a\<bar> mod \<bar>b\<bar>)"

definition setSelectedIndex :: "int \<Rightarrow> palette \<Rightarrow> palette" where
  "setSelectedIndex i p =
     p\<lparr>selectedIndex := max 0 (min i (int (length (filtered p)) - 1))\<rparr>"

definition moveSelection :: "int \<Rightarrow> palette \<Rightarrow> palette" where
  "moveSelection delta p =
     (if length (filtered p) = 0 then p
      else let newIndex = jsRem (jsAdd (jsAdd (selectedIndex p) delta) (int (length (filtered p))))
                                (int (length (filtered p)))
           in setSelectedIndex newIndex p)"

section \<open>Changing the command list\<close>

text \<open>
  \<^verbatim>\<open>
  setCommands(list) {
      this.commands = Array.isArray(list) ? list.slice() : []
      if (this.options.initialSortFunc && typeof this.options.initialSortFunc === 'function') {
          this.filtered = this.commands = this.commands.sort(this.options.initialSortFunc)
          this._renderResults('')
      }
      this._onQueryChange()
  }
  \<close>
  The argument is any value of the language: an array, of which only the elements matter
  here, or something that is not an array.
\<close>

datatype jsArg = ArrayOf "entry list" | NotArray

definition setCommands :: "(string \<Rightarrow> string \<Rightarrow> int) \<Rightarrow> jsArg \<Rightarrow> palette \<Rightarrow> palette" where
  "setCommands collate list p =
     (let p1 = p\<lparr>commands := (case list of ArrayOf xs \<Rightarrow> xs | NotArray \<Rightarrow> [])\<rparr>;
          p2 = (case initialSortFunc (options p1) of
                  Some f \<Rightarrow> p1\<lparr>commands := arraySort f (commands p1),
                               filtered := arraySort f (commands p1)\<rparr>
                | None \<Rightarrow> p1)
      in onQueryChange collate p2)"

text \<open>
  \<^verbatim>\<open>
  add(cmd) {
      let existingCmdIndex = -1
      if (cmd.id) {
          // cmd.id is false by default
          existingCmdIndex = this.commands.findIndex((obj) => obj.id === cmd.id)
      }
      if (existingCmdIndex !== -1) this.commands[existingCmdIndex] = cmd
      else this.commands.push(cmd)
      this.setCommands(this.commands)
  }
  \<close>
  \<open>if (cmd.id)\<close> holds for a string that is not empty: \<open>false\<close>, a missing id and the
  empty string all fail it.
\<close>

definition truthy :: "string option \<Rightarrow> bool" where
  "truthy i = (case i of None \<Rightarrow> False | Some s \<Rightarrow> s \<noteq> [])"

definition add :: "(string \<Rightarrow> string \<Rightarrow> int) \<Rightarrow> entry \<Rightarrow> palette \<Rightarrow> palette" where
  "add collate cmd p =
     (let existingCmdIndex =
            (if truthy (entryId cmd)
             then findIndex (\<lambda>obj. entryId obj = entryId cmd) (commands p) else - 1);
          cmds = (if existingCmdIndex \<noteq> - 1
                  then (commands p)[nat existingCmdIndex := cmd]
                  else commands p @ [cmd])
      in setCommands collate (ArrayOf cmds) (p\<lparr>commands := cmds\<rparr>))"

text \<open>
  \<^verbatim>\<open>
  remove(identifier) {
      if (typeof identifier === 'number') {
          const idx = identifier
          if (idx < 0 || idx >= this.commands.length) return
          this.commands.splice(idx, 1)
          this.setCommands(this.commands)
          return
      }
      const id = typeof identifier === 'string' ? identifier : identifier?.id
      if (!id) return
      const index = this.commands.findIndex((obj) => obj.id === id)
      if (index !== -1) {
          this.commands.splice(index, 1)
          this.setCommands(this.commands)
      }
  }
  \<close>
  The identifier is a number, a string, an entry, or \<open>null\<close>/\<open>undefined\<close>. A number
  is a finite one (a fraction too), \<open>NaN\<close> or an infinity; every comparison with
  \<open>NaN\<close> is false. \<open>splice(start, 1)\<close> truncates \<open>start\<close> to an integer, takes
  \<open>NaN\<close> as 0, counts a negative one from the end and stops at the length
  (\<open>spliceStart\<close>), and removes the element there if there is one (\<open>splice1\<close>).
\<close>

datatype jsNumber = Finite rat | NaN | PosInfinity | NegInfinity

fun jsLess :: "jsNumber \<Rightarrow> rat \<Rightarrow> bool" where
  "jsLess (Finite r) n = (r < n)"
| "jsLess NaN n = False"
| "jsLess PosInfinity n = False"
| "jsLess NegInfinity n = True"

fun jsGreaterEq :: "jsNumber \<Rightarrow> rat \<Rightarrow> bool" where
  "jsGreaterEq (Finite r) n = (r \<ge> n)"
| "jsGreaterEq NaN n = False"
| "jsGreaterEq PosInfinity n = True"
| "jsGreaterEq NegInfinity n = False"

fun spliceStart :: "jsNumber \<Rightarrow> nat \<Rightarrow> nat" where
  "spliceStart (Finite r) len =
     (let t = (if r < 0 then \<lceil>r\<rceil> else \<lfloor>r\<rfloor>)
      in if t < 0 then nat (max (int len + t) 0) else min (nat t) len)"
| "spliceStart NaN len = 0"
| "spliceStart PosInfinity len = len"
| "spliceStart NegInfinity len = 0"

datatype removeKey = Index jsNumber | IdString string | EntryRef entry | Nullish

definition splice1 :: "nat \<Rightarrow> 'a list \<Rightarrow> 'a list" where
  "splice1 i xs = take i xs @ drop (i + 1) xs"

definition remove :: "(string \<Rightarrow> string \<Rightarrow> int) \<Rightarrow> removeKey \<Rightarrow> palette \<Rightarrow> palette" where
  "remove collate ident p =
     (case ident of
        Index idx \<Rightarrow>
          if jsLess idx 0 \<or> jsGreaterEq idx (of_nat (length (commands p))) then p
          else let cmds = splice1 (spliceStart idx (length (commands p))) (commands p)
               in setCommands collate (ArrayOf cmds) (p\<lparr>commands := cmds\<rparr>)
      | _ \<Rightarrow>
          let id = (case ident of IdString s \<Rightarrow> Some s | EntryRef e \<Rightarrow> entryId e | _ \<Rightarrow> None)
          in if \<not> truthy id then p
             else let index = findIndex (\<lambda>obj. entryId obj = id) (commands p)
                  in if index \<noteq> - 1
                     then let cmds = splice1 (nat index) (commands p)
                          in setCommands collate (ArrayOf cmds) (p\<lparr>commands := cmds\<rparr>)
                     else p)"

text \<open>
  What \<open>setCommands\<close> makes of a list that \<open>add\<close> or \<open>remove\<close> hands to it: the list
  itself, or the list sorted by the configured \<open>initialSortFunc\<close>.
\<close>

definition resorted :: "palette \<Rightarrow> entry list \<Rightarrow> entry list" where
  "resorted p xs = (case initialSortFunc (options p) of None \<Rightarrow> xs | Some f \<Rightarrow> arraySort f xs)"

text \<open>
  The operations that change the filtered list or the selection. A query change is the
  user editing the input field, after which the \<open>input\<close> listener calls
  \<open>_onQueryChange\<close>.
\<close>

datatype operation =
    QueryChange string
  | SetSelectedIndex int
  | MoveSelection int
  | Add entry
  | Remove removeKey
  | SetCommands jsArg

fun perform :: "(string \<Rightarrow> string \<Rightarrow> int) \<Rightarrow> palette \<Rightarrow> operation \<Rightarrow> palette" where
  "perform collate p (QueryChange s) = onQueryChange collate (p\<lparr>inputValue := s\<rparr>)"
| "perform collate p (SetSelectedIndex i) = setSelectedIndex i p"
| "perform collate p (MoveSelection delta) = moveSelection delta p"
| "perform collate p (Add cmd) = add collate cmd p"
| "perform collate p (Remove ident) = remove collate ident p"
| "perform collate p (SetCommands list) = setCommands collate list p"

definition selectionInRange :: "palette \<Rightarrow> bool" where
  "selectionInRange p =
     (if filtered p = [] then selectedIndex p = 0
      else 0 \<le> selectedIndex p \<and> selectedIndex p \<le> int (length (filtered p)) - 1)"

text \<open>
  The comparator that the domain pickers configure as \<open>initialSortFunc\<close>: entries
  with more tabs first.
  \<^verbatim>\<open>
  const DomainPickerSortFunc = (a, b) => {
      const countA = a?.count ?? 0
      const countB = b?.count ?? 0
      return countB - countA
  }
  \<close>
\<close>

definition countOf :: "entry \<Rightarrow> int" where
  "countOf e = (case map_of (extra e) ''count'' of None \<Rightarrow> 0 | Some n \<Rightarrow> n)"

definition DomainPickerSortFunc :: "entry \<Rightarrow> entry \<Rightarrow> int" where
  "DomainPickerSortFunc a b = (let countA = countOf a; countB = countOf b in countB - countA)"

text \<open>More examples: a palette of three commands, and a domain picker of two hosts.\<close>

definition threePalette :: palette where
  "threePalette = setCommands letterCollate
     (ArrayOf [titled ''a'', titled ''b'', titled ''c'']) (newPalette defaultOptions)"

definition hostEntry :: "string \<Rightarrow> int \<Rightarrow> entry" where
  "hostEntry h n = (titled h)\<lparr>entryId := Some h, extra := [(''count'', n)]\<rparr>"

definition domainPalette :: palette where
  "domainPalette = setCommands letterCollate
     (ArrayOf [hostEntry ''a.org'' 5, hostEntry ''b.org'' 3])
     (newPalette (defaultOptions\<lparr>initialSortFunc := Some DomainPickerSortFunc\<rparr>))"

section \<open>Highlighting\<close>











section \<open>Running a command\<close>

text \<open>
  \<^verbatim>\<open>
  hide() {
      if (this.dialog.open) this.dialog.close()
      this.document.body.style.overflow = ''
  }
  _runCommand(entry) {
      try {
          if (typeof entry.run === 'function') {
              this.hide()
              const res = entry.run(this.window, entry)
              if (res && typeof res.then === 'function') {
                  res.catch((err) => console.error('Command error:', err))
              }
          } else {
              console.warn('Command has no run() function', entry)
          }
      } catch (err) {
          console.error('Command execution failed', err)
      }
  }
  \<close>
  \<open>runCommandTry\<close> is the body of the \<open>try\<close>: it ends normally (\<open>Inr\<close>) or with
  the error that the action throws (\<open>Inl\<close>, with the palette as it is at the throw).
  \<open>runCommand\<close> adds the \<open>catch\<close>; its result says whether an error leaves the method.
  A handler registered with \<open>res.catch\<close> on a promise that rejects runs later, when
  the event loop runs its microtasks: \<open>runMicrotasks\<close>.
\<close>

definition hide :: "palette \<Rightarrow> palette" where
  "hide p =
     (let p1 = (if dialogOpen p then p\<lparr>dialogOpen := False\<rparr> else p)
      in p1\<lparr>bodyScrollLocked := False, effects := effects p1 @ [HideCalled]\<rparr>)"

definition runCommandTry :: "entry \<Rightarrow> palette \<Rightarrow> (string \<times> palette) + palette" where
  "runCommandTry entry p =
     (case run entry of
        Some res \<Rightarrow>
          let p1 = hide p;
              p2 = p1\<lparr>effects := effects p1 @ [RunInvoked entry]\<rparr>
          in (case res of
                Returns \<Rightarrow> Inr p2
              | Throws err \<Rightarrow> Inl (err, p2)
              | Deferred None \<Rightarrow> Inr p2
              | Deferred (Some err) \<Rightarrow>
                  Inr (p2\<lparr>pendingRejections := pendingRejections p2 @ [err]\<rparr>))
      | None \<Rightarrow> Inr (p\<lparr>console := console p @ [ConsoleWarn ''Command has no run() function'']\<rparr>))"

definition runCommand :: "entry \<Rightarrow> palette \<Rightarrow> (string \<times> palette) + palette" where
  "runCommand entry p =
     (case runCommandTry entry p of
        Inl (err, p') \<Rightarrow>
          Inr (p'\<lparr>console := console p' @ [ConsoleError ''Command execution failed'' err]\<rparr>)
      | Inr p' \<Rightarrow> Inr p')"

definition runMicrotasks :: "palette \<Rightarrow> palette" where
  "runMicrotasks p =
     p\<lparr>console := console p @ map (ConsoleError ''Command error:'') (pendingRejections p),
       pendingRejections := []\<rparr>"

section \<open>Population\<close>

text \<open>
  The entry source wrapped by the constructor,
  \<^verbatim>\<open>
  this.populateFunc = async (...rest) => {
      return await Promise.resolve(populateFunc(...rest))
  }
  \<close>
  gives a promise: it rejects when the source throws or returns a promise that rejects,
  and resolves with the value of the source otherwise. The source reads the palette.
\<close>

datatype populated = Rejects string | Resolves jsArg

text \<open>
  \<open>this.setCommands(await this.populateFunc(this))\<close> inside an \<open>async\<close> function: a
  rejection of the awaited promise ends the function there, and the promise that the
  function has returned rejects with that error (\<open>Inl\<close>, with the palette as it is).
\<close>

definition populate ::
  "(string \<Rightarrow> string \<Rightarrow> int) \<Rightarrow> (palette \<Rightarrow> populated) \<Rightarrow> palette \<Rightarrow> (string \<times> palette) + palette" where
  "populate collate populateFunc p =
     (case populateFunc p of
        Rejects err \<Rightarrow> Inl (err, p)
      | Resolves list \<Rightarrow> Inr (setCommands collate list p))"



text \<open>Examples: an entry whose action throws, and sources that fail or deliver.\<close>

definition throwingEntry :: entry where
  "throwingEntry = (titled ''Close Tab'')\<lparr>run := Some (Throws ''boom'')\<rparr>"

definition rejectingEntry :: entry where
  "rejectingEntry = (titled ''Move Tab'')\<lparr>run := Some (Deferred (Some ''late''))\<rparr>"





section \<open>The command list as an array in the store\<close>

text \<open>
  Arrays are objects: the caller of \<open>setCommands\<close> keeps a reference to the array it
  passes and can change that array afterwards. To say what the palette then sees, arrays
  live in a store at addresses, \<open>alloc\<close> makes a new array at the next free address, and
  the palette holds the addresses of \<open>this.commands\<close> and \<open>this.filtered\<close> next to its
  other fields. \<open>pal\<close> is the palette read through these references.
\<close>

type_synonym addr = nat

record store =
  arrays :: "addr \<Rightarrow> entry list option"
  nextAddr :: addr

definition contents :: "store \<Rightarrow> addr \<Rightarrow> entry list" where
  "contents h a = (case arrays h a of Some xs \<Rightarrow> xs | None \<Rightarrow> [])"

definition alloc :: "entry list \<Rightarrow> store \<Rightarrow> addr \<times> store" where
  "alloc xs h = (nextAddr h, h\<lparr>arrays := (arrays h)(nextAddr h \<mapsto> xs), nextAddr := nextAddr h + 1\<rparr>)"

definition writeArray :: "addr \<Rightarrow> entry list \<Rightarrow> store \<Rightarrow> store" where
  \<comment> \<open>any change of the array at an address: \<open>push\<close>, \<open>splice\<close>, an assignment to an index\<close>
  "writeArray a ys h = h\<lparr>arrays := (arrays h)(a \<mapsto> ys)\<rparr>"

datatype jsValue =
    ArrayRef addr
  | Null
  | Undefined
  | StringValue string
  | NumberValue int
  | BoolValue bool
  | ObjectValue entry

fun isArray :: "jsValue \<Rightarrow> bool" where
  "isArray (ArrayRef a) = True"
| "isArray v = False"

definition argOf :: "store \<Rightarrow> jsValue \<Rightarrow> jsArg" where
  "argOf h v = (case v of ArrayRef a \<Rightarrow> ArrayOf (contents h a) | _ \<Rightarrow> NotArray)"

record paletteRefs =
  commandsRef :: addr
  filteredRef :: addr
  pal :: palette

text \<open>
  \<open>setCommands\<close> on the store, statement by statement:
  \<open>list.slice()\<close> and \<open>[]\<close> make a new array; \<open>sort\<close> sorts the new array in place
  and \<open>this.filtered\<close> becomes the same array; \<open>_onQueryChange\<close> assigns to
  \<open>this.filtered\<close> the array that \<open>_filterCommands\<close> or \<open>this.commands.slice()\<close> has
  made, a new one in every case.
\<close>

definition setCommandsRef ::
  "(string \<Rightarrow> string \<Rightarrow> int) \<Rightarrow> jsValue \<Rightarrow> paletteRefs \<times> store \<Rightarrow> paletteRefs \<times> store" where
  "setCommandsRef collate list s =
     (let (rp, h) = s;
          (c, h1) = alloc (case list of ArrayRef a \<Rightarrow> contents h a | _ \<Rightarrow> []) h;
          (f, h2) = (case initialSortFunc (options (pal rp)) of
                       Some sf \<Rightarrow> (c, writeArray c (arraySort sf (contents h1 c)) h1)
                     | None \<Rightarrow> (filteredRef rp, h1));
          p' = onQueryChange collate
                 ((pal rp)\<lparr>commands := contents h2 c, filtered := contents h2 f\<rparr>);
          (r, h3) = alloc (filtered p') h2
      in (\<lparr>commandsRef = c, filteredRef = r, pal = p'\<rparr>, h3))"

text \<open>
  An example: a new palette, whose two arrays are at the addresses 1 and 2, and an array
  of two entries at address 0 that a caller holds.
\<close>

definition newRefs :: paletteRefs where
  "newRefs = \<lparr>commandsRef = 1, filteredRef = 2, pal = newPalette defaultOptions\<rparr>"

definition newStore :: store where
  \<comment> \<open>the caller's array, and the two empty arrays that the constructor makes\<close>
  "newStore = \<lparr>arrays = Map.empty(0 \<mapsto> [titled ''a'', titled ''b''], 1 \<mapsto> [], 2 \<mapsto> []),
     nextAddr = 3\<rparr>"

section \<open>Properties of the fuzzy matcher\<close>

declare fuzzyLoop.simps [simp del]

lemma fuzzyLoop_subseq:
  "qi \<le> length query \<Longrightarrow> ti \<le> length text \<Longrightarrow>
   fuzzyLoop query text qi ti = subseq (drop qi query) (drop ti text)"
proof (induction query "text" qi ti rule: fuzzyLoop.induct)
  case (1 query tx qi ti)
  show ?case
  proof (cases "qi < length query \<and> ti < length tx")
    case True
    then have dq: "drop qi query = query ! qi # drop (Suc qi) query"
      and dt: "drop ti tx = tx ! ti # drop (Suc ti) tx"
      by (simp_all add: Cons_nth_drop_Suc)
    show ?thesis
    proof (cases "query ! qi = tx ! ti")
      case same: True
      have "fuzzyLoop query tx qi ti = fuzzyLoop query tx (qi + 1) (ti + 1)"
        using True same fuzzyLoop.simps [of query tx qi ti] by auto
      also have "\<dots> = subseq (drop (qi + 1) query) (drop (ti + 1) tx)"
        using "1.IH"(1) True same by simp
      also have "\<dots> = subseq (drop qi query) (drop ti tx)"
        using same by (simp add: dq dt)
      finally show ?thesis .
    next
      case differ: False
      have "fuzzyLoop query tx qi ti = fuzzyLoop query tx qi (ti + 1)"
        using True differ fuzzyLoop.simps [of query tx qi ti] by auto
      also have "\<dots> = subseq (drop qi query) (drop (ti + 1) tx)"
        using "1.IH"(2) True differ "1.prems" by simp
      also have "\<dots> = subseq (drop qi query) (drop ti tx)"
        using differ by (simp add: dq dt)
      finally show ?thesis .
    qed
  next
    case False
    have run: "fuzzyLoop query tx qi ti = (qi = length query)"
      using False fuzzyLoop.simps [of query tx qi ti] by auto
    show ?thesis
    proof (cases "qi = length query")
      case True
      then show ?thesis using run by simp
    next
      case False
      with \<open>\<not> (qi < length query \<and> ti < length tx)\<close> "1.prems"
      have "ti = length tx" and "drop qi query \<noteq> []" by auto
      then show ?thesis using run False by simp
    qed
  qed
qed

text \<open>
  C2. The fuzzy matcher returns true exactly when the query is a subsequence of the text:
  every character of the query occurs in the text, in order, not necessarily contiguously
  (\<^const>\<open>subseq\<close> is the library's subsequence relation). It holds for all strings, so in
  particular for lowercase ones, and the empty query matches every text.
\<close>

theorem fuzzyMatch_iff_subseq:
  "fuzzyMatch query text = subseq query text \<and> fuzzyMatch [] text"
  using fuzzyLoop_subseq [of 0 query 0 "text"] by (auto simp: fuzzyMatch_def)

theorem fuzzyMatch_iff_subseq_witness:
  "fuzzyMatch ''cat'' ''close all tabs'' \<and> \<not> fuzzyMatch ''tac'' ''cat''"
  using fuzzyMatch_iff_subseq [of "''cat''" "''close all tabs''"]
    fuzzyMatch_iff_subseq [of "''tac''" "''cat''"]
  by simp

section \<open>Properties of the sort\<close>

lemma mset_insertBy: "mset (insertBy cmp x ys) = add_mset x (mset ys)"
  by (induction ys) auto

lemma mset_arraySort: "mset (arraySort cmp xs) = mset xs"
  by (induction xs) (auto simp: mset_insertBy)

lemma set_insertBy: "set (insertBy cmp x ys) = insert x (set ys)"
  by (induction ys) auto

lemma set_arraySort: "set (arraySort cmp xs) = set xs"
  by (induction xs) (auto simp: set_insertBy)

lemma length_arraySort: "length (arraySort cmp xs) = length xs"
  using mset_arraySort [of cmp xs] by (metis size_mset)

lemma sorted_insertBy:
  assumes total: "\<And>a b. cmp a b \<le> 0 \<or> cmp b a \<le> 0"
      and trans: "\<And>a b c. cmp a b \<le> 0 \<Longrightarrow> cmp b c \<le> 0 \<Longrightarrow> cmp a c \<le> 0"
  shows "sorted_wrt (\<lambda>a b. cmp a b \<le> 0) ys \<Longrightarrow> sorted_wrt (\<lambda>a b. cmp a b \<le> 0) (insertBy cmp x ys)"
proof (induction ys)
  case Nil
  then show ?case by simp
next
  case (Cons y ys)
  show ?case
  proof (cases "cmp x y \<le> 0")
    case True
    then have "\<forall>z\<in>set ys. cmp x z \<le> 0"
      using Cons.prems trans by auto
    with True Cons.prems show ?thesis by simp
  next
    case False
    then have "cmp y x \<le> 0" using total [of x y] by simp
    with False Cons show ?thesis by (auto simp: set_insertBy)
  qed
qed

lemma sorted_arraySort:
  assumes total: "\<And>a b. cmp a b \<le> 0 \<or> cmp b a \<le> 0"
      and trans: "\<And>a b c. cmp a b \<le> 0 \<Longrightarrow> cmp b c \<le> 0 \<Longrightarrow> cmp a c \<le> 0"
  shows "sorted_wrt (\<lambda>a b. cmp a b \<le> 0) (arraySort cmp xs)"
  by (induction xs) (auto intro: sorted_insertBy [OF total trans])

section \<open>Properties of ranking and filtering\<close>

lemma scoredCompare_le:
  "(scoredCompare collate a b \<le> 0) =
   (snd a > snd b \<or> (snd a = snd b \<and> collate (title (fst a)) (title (fst b)) \<le> 0))"
  by (auto simp: scoredCompare_def)

lemma filter_scored:
  "map fst (filter (\<lambda>x. snd x > 0) (map (\<lambda>cmd. (cmd, f cmd)) cs)) = filter (\<lambda>c. f c > 0) cs"
  by (induction cs) auto

lemma filterCommands_sorted:
  assumes total: "\<And>s t. collate s t \<le> 0 \<or> collate t s \<le> 0"
      and trans: "\<And>s t u. collate s t \<le> 0 \<Longrightarrow> collate t u \<le> 0 \<Longrightarrow> collate s u \<le> 0"
      and "q \<noteq> []"
  shows "sorted_wrt (rankedBefore collate (score (fuzzy (options p)) (toLowerCase q)))
           (filterCommands collate p q)"
proof -
  define sc where "sc = score (fuzzy (options p)) (toLowerCase q)"
  define scored where "scored = filter (\<lambda>x. snd x > 0) (map (\<lambda>cmd. (cmd, sc cmd)) (commands p))"
  have tot: "\<And>a b. scoredCompare collate a b \<le> 0 \<or> scoredCompare collate b a \<le> 0"
    using total by (auto simp: scoredCompare_le)
  have tr: "\<And>a b c. scoredCompare collate a b \<le> 0 \<Longrightarrow> scoredCompare collate b c \<le> 0
              \<Longrightarrow> scoredCompare collate a c \<le> 0"
    unfolding scoredCompare_le using trans by (metis order_less_trans)
  have srt: "sorted_wrt (\<lambda>a b. scoredCompare collate a b \<le> 0) (arraySort (scoredCompare collate) scored)"
    by (rule sorted_arraySort [OF tot tr])
  have el: "\<forall>x\<in>set (arraySort (scoredCompare collate) scored). snd x = sc (fst x)"
    by (auto simp: set_arraySort scored_def)
  have "sorted_wrt (\<lambda>a b. rankedBefore collate sc (fst a) (fst b)) (arraySort (scoredCompare collate) scored)"
    by (rule sorted_wrt_mono_rel [OF _ srt]) (use el in \<open>auto simp: scoredCompare_le rankedBefore_def\<close>)
  then have "sorted_wrt (rankedBefore collate sc) (map fst (arraySort (scoredCompare collate) scored))"
    by (simp add: sorted_wrt_map)
  then show ?thesis
    using \<open>q \<noteq> []\<close> by (simp add: filterCommands_def sc_def scored_def Let_def)
qed

lemma filterCommands_mset:
  assumes "q \<noteq> []"
  shows "mset (filterCommands collate p q) =
     mset (filter (\<lambda>c. score (fuzzy (options p)) (toLowerCase q) c > 0) (commands p))"
proof -
  define sc where "sc = score (fuzzy (options p)) (toLowerCase q)"
  define scored where "scored = filter (\<lambda>x. snd x > 0) (map (\<lambda>cmd. (cmd, sc cmd)) (commands p))"
  have "mset (map fst (arraySort (scoredCompare collate) scored)) = mset (map fst scored)"
    by (metis mset_arraySort mset_map)
  also have "map fst scored = filter (\<lambda>c. sc c > 0) (commands p)"
    unfolding scored_def by (rule filter_scored)
  finally show ?thesis
    using assms by (simp add: filterCommands_def Let_def sc_def scored_def)
qed

lemma filtered_onQueryChange:
  "filtered (onQueryChange collate p) =
     (if int (length (trim (inputValue p))) \<ge> minQueryLength (options p)
      then filterCommands collate p (trim (inputValue p)) else commands p)"
  by (simp add: onQueryChange_def Let_def)

lemma keyCompare_le: "(keyCompare a b \<le> 0) = (a \<le> b)"
  by (induction a b rule: keyCompare.induct) auto

lemma letterCollate_le: "(letterCollate s t \<le> 0) = (sortKey s \<le> sortKey t)"
  by (simp add: letterCollate_def keyCompare_le)

lemma letterCollate_total: "letterCollate s t \<le> 0 \<or> letterCollate t s \<le> 0"
  unfolding letterCollate_le by (rule linear)

lemma letterCollate_trans:
  "letterCollate s t \<le> 0 \<Longrightarrow> letterCollate t u \<le> 0 \<Longrightarrow> letterCollate s u \<le> 0"
  unfolding letterCollate_le by (rule order_trans)

lemmas string_eval =
  toLowerCase_def lowerChar_def isUpper_def char_of_def bit_Suc_0_iff trim_def
  isWhiteSpace_def startsWith_def

lemmas filter_eval =
  onQueryChange_def filterCommands_def score_def scoredCompare_def queryScore_def
  fuzzyMatch_def fuzzyLoop.simps letterCollate_def sortKey_def Let_def

lemmas example_defs =
  tiePalette_def tabsPalette_def newPalette_def defaultOptions_def titled_def

text \<open>
  C1, as the code has it. When the trimmed query is empty or shorter than
  \<open>minQueryLength\<close>, the filtered list is the command list, in its order. Otherwise it
  holds exactly the entries whose score is positive (each as often as the command list
  has it), a higher score before a lower one, and entries of equal score in the ascending
  order of the host's collation \<open>localeCompare\<close> of their titles, for every collation
  that is a consistent order.
\<close>

theorem filter_ranked_by_collation:
  assumes total: "\<forall>s t. collate s t \<le> 0 \<or> collate t s \<le> 0"
      and trans: "\<forall>s t u. collate s t \<le> 0 \<longrightarrow> collate t u \<le> 0 \<longrightarrow> collate s u \<le> 0"
  shows "if trim (inputValue p) = [] \<or> int (length (trim (inputValue p))) < minQueryLength (options p)
         then filtered (onQueryChange collate p) = commands p
         else mset (filtered (onQueryChange collate p))
                = mset (filter (\<lambda>c. queryScore p c > 0) (commands p))
            \<and> sorted_wrt (rankedBefore collate (queryScore p)) (filtered (onQueryChange collate p))"
proof (cases "trim (inputValue p) = [] \<or> int (length (trim (inputValue p))) < minQueryLength (options p)")
  case True
  then show ?thesis
    by (auto simp: filtered_onQueryChange filterCommands_def)
next
  case False
  then have q: "trim (inputValue p) \<noteq> []"
    and f: "filtered (onQueryChange collate p) = filterCommands collate p (trim (inputValue p))"
    by (auto simp: filtered_onQueryChange)
  have "sorted_wrt (rankedBefore collate (queryScore p)) (filterCommands collate p (trim (inputValue p)))"
    unfolding queryScore_def using total trans q by (intro filterCommands_sorted) blast+
  with False q f show ?thesis
    by (simp add: filterCommands_mset queryScore_def)
qed

theorem filter_ranked_by_collation_witness:
  "\<not> (trim (inputValue tabsPalette) = []
         \<or> int (length (trim (inputValue tabsPalette))) < minQueryLength (options tabsPalette))
   \<and> mset (filtered (onQueryChange letterCollate tabsPalette))
        = mset (filter (\<lambda>c. queryScore tabsPalette c > 0) (commands tabsPalette))
   \<and> sorted_wrt (rankedBefore letterCollate (queryScore tabsPalette))
        (filtered (onQueryChange letterCollate tabsPalette))"
proof -
  have tot: "\<forall>s t. letterCollate s t \<le> 0 \<or> letterCollate t s \<le> 0"
    using letterCollate_total by blast
  have tr: "\<forall>s t u. letterCollate s t \<le> 0 \<longrightarrow> letterCollate t u \<le> 0 \<longrightarrow> letterCollate s u \<le> 0"
    using letterCollate_trans by blast
  have g: "\<not> (trim (inputValue tabsPalette) = []
         \<or> int (length (trim (inputValue tabsPalette))) < minQueryLength (options tabsPalette))"
    by (simp add: example_defs trim_def isWhiteSpace_def)
  from filter_ranked_by_collation [OF tot tr, of tabsPalette] g
  show ?thesis by (simp only: if_False simp_thms)
qed

text \<open>
  C1 as stated fails on the tie-break. With the commands titled \<open>Xb\<close> and \<open>xa\<close> and the
  query \<open>x\<close>, both score 135. In the case-sensitive order of the code units \<open>Xb\<close>
  comes first (\<open>X\<close> is 88, \<open>x\<close> is 120), but the filter sorts with \<open>localeCompare\<close>,
  which in a host that collates by locale puts \<open>xa\<close> first.
\<close>

theorem filter_tiebreak_counterexample:
  "map title (filtered (onQueryChange letterCollate tiePalette)) = [''xa'', ''Xb'']
   \<and> map (queryScore tiePalette) (filtered (onQueryChange letterCollate tiePalette)) = [135, 135]
   \<and> codeUnitLess ''Xb'' ''xa''"
  by (simp add: string_eval filter_eval example_defs)

section \<open>Properties of the selection\<close>

declare bitLength.simps [simp del]

lemma toDouble_safe: "isSafeInteger x \<Longrightarrow> toDouble x = x"
  by (simp add: toDouble_def isSafeInteger_def Let_def nat_less_iff)

lemma jsRem_nonneg: "0 \<le> a \<Longrightarrow> 0 < b \<Longrightarrow> jsRem a b = a mod b"
  by (simp add: jsRem_def sgn_if)

lemma onQueryChange_unfold:
  "onQueryChange collate p =
     p\<lparr>filtered := filtered (onQueryChange collate p),
       selectedIndex := max 0 (min (selectedIndex p)
         (max 0 (int (length (filtered (onQueryChange collate p))) - 1)))\<rparr>"
proof -
  define r where "r = (if int (length (trim (inputValue p))) \<ge> minQueryLength (options p)
      then filterCommands collate p (trim (inputValue p)) else commands p)"
  define s where "s = min (selectedIndex p) (max 0 (int (length r) - 1))"
  define p1 where "p1 = p\<lparr>filtered := r, selectedIndex := s\<rparr>"
  have "onQueryChange collate p = (if selectedIndex p1 < 0 then p1\<lparr>selectedIndex := 0\<rparr> else p1)"
    unfolding onQueryChange_def Let_def p1_def s_def r_def by (rule refl)
  also have "\<dots> = p\<lparr>filtered := r, selectedIndex := max 0 s\<rparr>"
    by (cases "s < 0") (simp_all add: p1_def)
  finally have u: "onQueryChange collate p = p\<lparr>filtered := r, selectedIndex := max 0 s\<rparr>" .
  then have "filtered (onQueryChange collate p) = r" by simp
  with u show ?thesis by (simp only: s_def)
qed

lemma onQueryChange_commands: "commands (onQueryChange collate p) = commands p"
  by (subst onQueryChange_unfold) simp

lemma onQueryChange_options: "options (onQueryChange collate p) = options p"
  by (subst onQueryChange_unfold) simp

lemma selectedIndex_onQueryChange:
  "selectedIndex (onQueryChange collate p) =
     max 0 (min (selectedIndex p) (max 0 (int (length (filtered (onQueryChange collate p))) - 1)))"
  by (subst onQueryChange_unfold) simp

lemma onQueryChange_inRange: "selectionInRange (onQueryChange collate p)"
proof -
  define n where "n = int (length (filtered (onQueryChange collate p)))"
  have "selectedIndex (onQueryChange collate p) = max 0 (min (selectedIndex p) (max 0 (n - 1)))"
    unfolding n_def by (rule selectedIndex_onQueryChange)
  moreover have "0 \<le> n" and "filtered (onQueryChange collate p) = [] \<longleftrightarrow> n = 0"
    by (simp_all add: n_def)
  ultimately show ?thesis
    unfolding selectionInRange_def n_def [symmetric] by auto
qed

lemma setSelectedIndex_inRange: "selectionInRange (setSelectedIndex i p)"
  by (auto simp: setSelectedIndex_def selectionInRange_def)

lemma setCommands_inRange: "selectionInRange (setCommands collate list p)"
  unfolding setCommands_def Let_def by (rule onQueryChange_inRange)

lemma commands_setCommands:
  "commands (setCommands collate (ArrayOf xs) p) =
     (case initialSortFunc (options p) of None \<Rightarrow> xs | Some f \<Rightarrow> arraySort f xs)"
  unfolding setCommands_def Let_def onQueryChange_commands by (simp split: option.splits)

lemma commands_setCommands_NotArray: "commands (setCommands collate NotArray p) = []"
  unfolding setCommands_def Let_def onQueryChange_commands by (simp split: option.splits)

lemma perform_inRange_or_same:
  "selectionInRange (perform collate p op) \<or> perform collate p op = p"
proof (cases op)
  case (MoveSelection delta)
  then show ?thesis
    by (simp add: moveSelection_def Let_def setSelectedIndex_inRange)
next
  case (Add cmd)
  then show ?thesis by (simp add: add_def Let_def setCommands_inRange)
next
  case (Remove ident)
  then show ?thesis
    by (cases ident) (simp_all add: remove_def Let_def setCommands_inRange)
qed (simp_all add: onQueryChange_inRange setSelectedIndex_inRange setCommands_inRange)

lemma newPalette_inRange: "selectionInRange (newPalette opts)"
  by (simp add: selectionInRange_def newPalette_def)

lemma foldl_perform_inRange:
  "selectionInRange p \<Longrightarrow> selectionInRange (foldl (perform collate) p ops)"
proof (induction ops arbitrary: p)
  case Nil
  then show ?case by simp
next
  case (Cons op ops)
  have "selectionInRange (perform collate p op)"
    using perform_inRange_or_same [of collate p op] Cons.prems by auto
  then show ?case using Cons.IH by simp
qed

text \<open>
  C4. Every operation that can change the filtered list or the selection (a query change,
  \<open>setSelectedIndex\<close> with any integer, \<open>moveSelection\<close>, \<open>add\<close>, \<open>remove\<close>,
  \<open>setCommands\<close>) either leaves the palette as it was or ends with the selected index
  in \<open>[0, len(filtered) - 1]\<close>, 0 when the filtered list is empty. A new palette has
  index 0 and an empty list, so the index is in range after every sequence of operations.
\<close>

theorem selectedIndex_in_range:
  "(selectionInRange (perform collate p op) \<or> perform collate p op = p)
   \<and> selectionInRange (foldl (perform collate) (newPalette opts) ops)"
  using perform_inRange_or_same foldl_perform_inRange [OF newPalette_inRange] by blast

theorem selectedIndex_in_range_witness:
  "selectionInRange (foldl (perform letterCollate) (newPalette defaultOptions)
     [SetCommands (ArrayOf [titled ''a'', titled ''b'']), MoveSelection (- 1),
      Remove (Index (Finite 1)), QueryChange ''zzz'', SetSelectedIndex 7])"
  using selectedIndex_in_range [of letterCollate _ _ defaultOptions] by blast

text \<open>
  C3, as the code has it. \<open>moveSelection\<close> does nothing on an empty filtered list.
  Otherwise, whenever \<open>selectedIndex + delta + len(filtered)\<close> is not negative and the
  two sums \<open>selectedIndex + delta\<close> and \<open>selectedIndex + delta + len(filtered)\<close> are
  below \<open>2^53\<close> in magnitude, so that the doubles add exactly, the new index is the sum
  modulo \<open>len(filtered)\<close>. One step back from index 0 gives the last index and one step
  forward from the last index gives 0, for every list as long as an array can be.
\<close>

theorem moveSelection_wraps:
  "(filtered p = [] \<longrightarrow> moveSelection delta p = p)
   \<and> (filtered p \<noteq> [] \<and> 0 \<le> selectedIndex p + delta + int (length (filtered p))
        \<and> isSafeInteger (selectedIndex p + delta)
        \<and> isSafeInteger (selectedIndex p + delta + int (length (filtered p))) \<longrightarrow>
        selectedIndex (moveSelection delta p)
          = (selectedIndex p + delta + int (length (filtered p))) mod int (length (filtered p))
        \<and> filtered (moveSelection delta p) = filtered p)
   \<and> (filtered p \<noteq> [] \<and> length (filtered p) < 2 ^ 32 \<and> selectedIndex p = 0 \<longrightarrow>
        selectedIndex (moveSelection (- 1) p) = int (length (filtered p)) - 1)
   \<and> (filtered p \<noteq> [] \<and> length (filtered p) < 2 ^ 32
        \<and> selectedIndex p = int (length (filtered p)) - 1 \<longrightarrow>
        selectedIndex (moveSelection 1 p) = 0)"
proof -
  have gen: "selectedIndex (moveSelection d p)
          = (selectedIndex p + d + int (length (filtered p))) mod int (length (filtered p))
        \<and> filtered (moveSelection d p) = filtered p"
    if ne: "filtered p \<noteq> []" and nn: "0 \<le> selectedIndex p + d + int (length (filtered p))"
      and s1: "isSafeInteger (selectedIndex p + d)"
      and s2: "isSafeInteger (selectedIndex p + d + int (length (filtered p)))" for d
  proof -
    define n where "n = int (length (filtered p))"
    define a where "a = selectedIndex p + d + n"
    have pos: "0 < n" using ne by (simp add: n_def)
    have "jsAdd (selectedIndex p) d = selectedIndex p + d"
      unfolding jsAdd_def using s1 by (rule toDouble_safe)
    then have sum: "jsAdd (jsAdd (selectedIndex p) d) n = a"
      unfolding a_def n_def jsAdd_def using s2 by (simp add: toDouble_safe)
    have r: "jsRem a n = a mod n" using nn pos unfolding a_def n_def by (rule jsRem_nonneg)
    have "0 \<le> a mod n" and "a mod n < n" using pos by simp_all
    then have "max 0 (min (a mod n) (n - 1)) = a mod n" by linarith
    moreover have "selectedIndex (setSelectedIndex (jsRem a n) p) = max 0 (min (jsRem a n) (n - 1))"
      by (simp add: setSelectedIndex_def n_def)
    ultimately have "selectedIndex (setSelectedIndex (jsRem a n) p) = a mod n"
      by (simp only: r)
    moreover have "moveSelection d p = setSelectedIndex (jsRem a n) p"
      using ne sum by (simp add: moveSelection_def Let_def n_def)
    ultimately show ?thesis
      by (simp add: setSelectedIndex_def a_def n_def)
  qed
  have empty: "filtered p = [] \<longrightarrow> moveSelection delta p = p"
    by (simp add: moveSelection_def)
  have small: "isSafeInteger x" if "\<bar>x\<bar> \<le> 2 ^ 33" for x :: int
  proof -
    have "(2::int) ^ 33 < 2 ^ 53" by simp
    with that show ?thesis unfolding isSafeInteger_def by linarith
  qed
  have len: "int (length (filtered p)) < 2 ^ 32" if "length (filtered p) < 2 ^ 32"
    using that by (metis of_nat_less_iff of_nat_numeral of_nat_power)
  have first: "selectedIndex (moveSelection (- 1) p) = int (length (filtered p)) - 1"
    if "filtered p \<noteq> []" "length (filtered p) < 2 ^ 32" "selectedIndex p = 0"
  proof -
    have "isSafeInteger (selectedIndex p + (- 1))"
      "isSafeInteger (selectedIndex p + (- 1) + int (length (filtered p)))"
      using that len by (auto intro!: small)
    then show ?thesis
      using gen [of "- 1"] that by (cases "filtered p") (simp_all add: zmod_minus1)
  qed
  have last: "selectedIndex (moveSelection 1 p) = 0"
    if "filtered p \<noteq> []" "length (filtered p) < 2 ^ 32"
      "selectedIndex p = int (length (filtered p)) - 1"
  proof -
    have "isSafeInteger (selectedIndex p + 1)"
      "isSafeInteger (selectedIndex p + 1 + int (length (filtered p)))"
      using that len by (auto intro!: small)
    moreover have "selectedIndex p + 1 + int (length (filtered p)) = 2 * int (length (filtered p))"
      using that by simp
    ultimately show ?thesis using gen [of 1] that by simp
  qed
  show ?thesis using gen [of delta] empty first last by blast
qed

lemma trim_Nil: "trim [] = []"
  by (simp add: trim_def)

lemma filtered_onQueryChange_noquery:
  "trim (inputValue p) = [] \<Longrightarrow> filtered (onQueryChange collate p) = commands p"
  by (simp add: filtered_onQueryChange filterCommands_def)

lemma threePalette_fields:
  "filtered threePalette = [titled ''a'', titled ''b'', titled ''c'']"
  "selectedIndex threePalette = 0"
proof -
  define p0 where "p0 = (newPalette defaultOptions)
     \<lparr>commands := [titled ''a'', titled ''b'', titled ''c'']\<rparr>"
  have t: "threePalette = onQueryChange letterCollate p0"
    by (simp add: threePalette_def setCommands_def Let_def p0_def newPalette_def defaultOptions_def)
  have q: "trim (inputValue p0) = []"
    by (simp add: p0_def newPalette_def trim_Nil)
  show f: "filtered threePalette = [titled ''a'', titled ''b'', titled ''c'']"
    unfolding t filtered_onQueryChange_noquery [OF q] by (simp add: p0_def)
  have "selectedIndex p0 = 0" by (simp add: p0_def newPalette_def)
  then show "selectedIndex threePalette = 0"
    using selectedIndex_onQueryChange [of letterCollate p0] f unfolding t by simp
qed

theorem moveSelection_wraps_witness:
  "filtered threePalette \<noteq> [] \<and> selectedIndex threePalette = 0
   \<and> 0 \<le> selectedIndex threePalette + (- 1) + int (length (filtered threePalette))
   \<and> isSafeInteger (selectedIndex threePalette + (- 1))
   \<and> isSafeInteger (selectedIndex threePalette + (- 1) + int (length (filtered threePalette)))
   \<and> selectedIndex (moveSelection (- 1) threePalette) = 2
   \<and> selectedIndex (moveSelection (- 1) threePalette)
        = (selectedIndex threePalette + (- 1) + int (length (filtered threePalette)))
            mod int (length (filtered threePalette))"
  using moveSelection_wraps [of threePalette "- 1"]
  by (simp add: threePalette_fields isSafeInteger_def)

text \<open>
  C3 as stated, for every integer \<open>delta\<close>, fails far back: with three rows and index 0,
  \<open>moveSelection(-5)\<close> leaves the index at 0, while \<open>(0 - 5 + 3) mod 3\<close> is 1. The
  remainder \<open>-2 % 3\<close> is \<open>-2\<close> in JavaScript, and \<open>_setSelectedIndex\<close> clamps it to 0.
\<close>

theorem moveSelection_far_back_counterexample:
  "filtered threePalette \<noteq> []
   \<and> selectedIndex threePalette = 0
   \<and> selectedIndex (moveSelection (- 5) threePalette) = 0
   \<and> (selectedIndex threePalette + (- 5) + int (length (filtered threePalette)))
        mod int (length (filtered threePalette)) = 1
   \<and> jsRem (selectedIndex threePalette + (- 5) + int (length (filtered threePalette)))
        (int (length (filtered threePalette))) = - 2"
  by (simp add: threePalette_fields moveSelection_def setSelectedIndex_def jsRem_def jsAdd_def
      toDouble_def)

text \<open>
  Far forward the sum is no longer exact. With three rows at index 0 and \<open>delta = 2^53\<close>
  the sum \<open>2^53 + 3\<close> lies between two doubles and rounds to \<open>2^53 + 4\<close>, whose
  remainder is 0, while \<open>(2^53 + 3) mod 3\<close> is 2.
\<close>

lemma moveSelection_rounds:
  "jsAdd (jsAdd 0 9007199254740992) 3 = 9007199254740996
   \<and> selectedIndex (moveSelection 9007199254740992 threePalette) = 0
   \<and> (selectedIndex threePalette + 9007199254740992 + int (length (filtered threePalette)))
        mod int (length (filtered threePalette)) = 2"
proof -
  have b: "bitLength 9007199254740992 = 54" "bitLength 9007199254740995 = 54"
    by (simp_all add: bitLength.simps)
  have "jsAdd 0 9007199254740992 = 9007199254740992"
    by (simp add: jsAdd_def toDouble_def b Let_def)
  moreover have "jsAdd 9007199254740992 3 = 9007199254740996"
    by (simp add: jsAdd_def toDouble_def b Let_def)
  ultimately show ?thesis
    by (simp add: threePalette_fields moveSelection_def setSelectedIndex_def jsRem_def)
qed

section \<open>Properties of add and remove\<close>

lemma findIndexFrom_none:
  "\<forall>x\<in>set xs. \<not> pred x \<Longrightarrow> findIndexFrom pred xs k = - 1"
  by (induction xs arbitrary: k) auto

lemma findIndexFrom_first:
  "i < length xs \<Longrightarrow> pred (xs ! i) \<Longrightarrow> \<forall>j<i. \<not> pred (xs ! j) \<Longrightarrow>
   findIndexFrom pred xs k = k + int i"
proof (induction xs arbitrary: i k)
  case Nil
  then show ?case by simp
next
  case (Cons x xs)
  show ?case
  proof (cases i)
    case 0
    with Cons.prems show ?thesis by simp
  next
    case (Suc i')
    with Cons.prems have "\<not> pred x" by auto
    moreover have "findIndexFrom pred xs (k + 1) = (k + 1) + int i'"
      using Cons.prems Suc by (intro Cons.IH) auto
    ultimately show ?thesis using Suc by simp
  qed
qed

lemma findIndex_none: "\<forall>x\<in>set xs. \<not> pred x \<Longrightarrow> findIndex pred xs = - 1"
  by (simp add: findIndex_def findIndexFrom_none)

lemma findIndex_first:
  "i < length xs \<Longrightarrow> pred (xs ! i) \<Longrightarrow> \<forall>j<i. \<not> pred (xs ! j) \<Longrightarrow> findIndex pred xs = int i"
  using findIndexFrom_first [of i xs pred 0] by (simp add: findIndex_def)

lemma commands_setCommands_mset:
  "mset (commands (setCommands collate (ArrayOf xs) p)) = mset xs"
  by (simp add: commands_setCommands mset_arraySort split: option.splits)

lemma commands_setCommands_unsorted:
  "initialSortFunc (options p) = None \<Longrightarrow> commands (setCommands collate (ArrayOf xs) p) = xs"
  by (simp add: commands_setCommands)

lemma commands_setCommands_resorted:
  "commands (setCommands collate (ArrayOf xs) p) = resorted p xs"
  by (simp add: commands_setCommands resorted_def)

lemma mset_resorted: "mset (resorted p xs) = mset xs"
  by (simp add: resorted_def mset_arraySort split: option.splits)

lemma resorted_commands_update: "resorted (p\<lparr>commands := ys\<rparr>) xs = resorted p xs"
  by (simp add: resorted_def)

lemma sorted_resorted:
  assumes "initialSortFunc (options p) = Some f"
    and "\<forall>a b. f a b \<le> 0 \<or> f b a \<le> 0"
    and "\<forall>a b c. f a b \<le> 0 \<longrightarrow> f b c \<le> 0 \<longrightarrow> f a c \<le> 0"
  shows "sorted_wrt (\<lambda>a b. f a b \<le> 0) (resorted p xs)"
proof -
  have "sorted_wrt (\<lambda>a b. f a b \<le> 0) (arraySort f xs)"
    using assms(2,3) by (intro sorted_arraySort) blast+
  then show ?thesis using assms(1) by (simp add: resorted_def)
qed

lemma add_is_setCommands:
  "\<exists>cmds. add collate cmd p = setCommands collate (ArrayOf cmds) (p\<lparr>commands := cmds\<rparr>)"
  unfolding add_def Let_def by blast

lemma add_replace:
  assumes "truthy (entryId cmd)" "i < length (commands p)"
    "entryId (commands p ! i) = entryId cmd" "\<forall>j<i. entryId (commands p ! j) \<noteq> entryId cmd"
  shows "add collate cmd p =
     setCommands collate (ArrayOf ((commands p)[i := cmd])) (p\<lparr>commands := (commands p)[i := cmd]\<rparr>)"
proof -
  have "findIndex (\<lambda>obj. entryId obj = entryId cmd) (commands p) = int i"
    using assms by (intro findIndex_first) auto
  then show ?thesis using assms(1) by (simp add: add_def Let_def)
qed

lemma add_append:
  assumes "\<not> truthy (entryId cmd) \<or> (\<forall>x\<in>set (commands p). entryId x \<noteq> entryId cmd)"
  shows "add collate cmd p =
     setCommands collate (ArrayOf (commands p @ [cmd])) (p\<lparr>commands := commands p @ [cmd]\<rparr>)"
proof (cases "truthy (entryId cmd)")
  case True
  with assms have "findIndex (\<lambda>obj. entryId obj = entryId cmd) (commands p) = - 1"
    by (intro findIndex_none) auto
  then show ?thesis using True by (simp add: add_def Let_def)
next
  case False
  then show ?thesis by (simp add: add_def Let_def)
qed

text \<open>
  C5, as the code has it. \<open>add\<close> ends with \<open>setCommands\<close>, which sorts the list again
  when an \<open>initialSortFunc\<close> is configured (\<open>resorted\<close>). If the entry has a non-empty
  id and \<open>i\<close> is the first position of an entry with that id, the entry replaces the one
  at \<open>i\<close>: the command list is the old one with position \<open>i\<close> overwritten, sorted again
  if a sort function is configured; the length stays, and without a sort function the
  entry is at position \<open>i\<close>. If the id is empty or missing, or no entry has it, the entry
  is appended: the command list is the old one with the entry at its end, sorted again if
  a sort function is configured; the length grows by one, and without a sort function the
  new entry is last. Entries without an id are therefore never replaced. With a sort
  function that is a consistent order, the command list is in that order after \<open>add\<close>.
\<close>

theorem add_replaces_or_appends:
  "(truthy (entryId cmd) \<and> i < length (commands p) \<and> entryId (commands p ! i) = entryId cmd
      \<and> (\<forall>j<i. entryId (commands p ! j) \<noteq> entryId cmd) \<longrightarrow>
      length (commands (add collate cmd p)) = length (commands p)
      \<and> mset (commands (add collate cmd p)) = mset ((commands p)[i := cmd])
      \<and> (initialSortFunc (options p) = None \<longrightarrow>
           commands (add collate cmd p) = (commands p)[i := cmd])
      \<and> commands (add collate cmd p) = resorted p ((commands p)[i := cmd]))
   \<and> (\<not> truthy (entryId cmd) \<or> (\<forall>x\<in>set (commands p). entryId x \<noteq> entryId cmd) \<longrightarrow>
      length (commands (add collate cmd p)) = length (commands p) + 1
      \<and> mset (commands (add collate cmd p)) = mset (commands p) + {#cmd#}
      \<and> (initialSortFunc (options p) = None \<longrightarrow>
           commands (add collate cmd p) = commands p @ [cmd])
      \<and> commands (add collate cmd p) = resorted p (commands p @ [cmd]))
   \<and> (initialSortFunc (options p) = Some f
        \<and> (\<forall>a b. f a b \<le> 0 \<or> f b a \<le> 0)
        \<and> (\<forall>a b c. f a b \<le> 0 \<longrightarrow> f b c \<le> 0 \<longrightarrow> f a c \<le> 0) \<longrightarrow>
      sorted_wrt (\<lambda>a b. f a b \<le> 0) (commands (add collate cmd p)))"
proof (intro conjI impI)
  assume a: "truthy (entryId cmd) \<and> i < length (commands p) \<and> entryId (commands p ! i) = entryId cmd
      \<and> (\<forall>j<i. entryId (commands p ! j) \<noteq> entryId cmd)"
  then have eq: "add collate cmd p =
     setCommands collate (ArrayOf ((commands p)[i := cmd])) (p\<lparr>commands := (commands p)[i := cmd]\<rparr>)"
    by (intro add_replace) auto
  show m: "mset (commands (add collate cmd p)) = mset ((commands p)[i := cmd])"
    unfolding eq by (rule commands_setCommands_mset)
  show "length (commands (add collate cmd p)) = length (commands p)"
    using m by (metis length_list_update size_mset)
  show "commands (add collate cmd p) = (commands p)[i := cmd]" if "initialSortFunc (options p) = None"
    unfolding eq using that by (simp add: commands_setCommands_unsorted)
  show "commands (add collate cmd p) = resorted p ((commands p)[i := cmd])"
    unfolding eq commands_setCommands_resorted by (rule resorted_commands_update)
next
  assume "\<not> truthy (entryId cmd) \<or> (\<forall>x\<in>set (commands p). entryId x \<noteq> entryId cmd)"
  then have eq: "add collate cmd p =
     setCommands collate (ArrayOf (commands p @ [cmd])) (p\<lparr>commands := commands p @ [cmd]\<rparr>)"
    by (rule add_append)
  have m: "mset (commands (add collate cmd p)) = mset (commands p @ [cmd])"
    unfolding eq by (rule commands_setCommands_mset)
  then show "mset (commands (add collate cmd p)) = mset (commands p) + {#cmd#}" by simp
  show "length (commands (add collate cmd p)) = length (commands p) + 1"
    using m by (metis length_append_singleton size_mset Suc_eq_plus1)
  show "commands (add collate cmd p) = commands p @ [cmd]" if "initialSortFunc (options p) = None"
    unfolding eq using that by (simp add: commands_setCommands_unsorted)
  show "commands (add collate cmd p) = resorted p (commands p @ [cmd])"
    unfolding eq commands_setCommands_resorted by (rule resorted_commands_update)
next
  assume f: "initialSortFunc (options p) = Some f
        \<and> (\<forall>a b. f a b \<le> 0 \<or> f b a \<le> 0)
        \<and> (\<forall>a b c. f a b \<le> 0 \<longrightarrow> f b c \<le> 0 \<longrightarrow> f a c \<le> 0)"
  obtain cmds where "add collate cmd p = setCommands collate (ArrayOf cmds) (p\<lparr>commands := cmds\<rparr>)"
    using add_is_setCommands by blast
  then have "commands (add collate cmd p) = resorted p cmds"
    by (simp add: commands_setCommands_resorted resorted_commands_update)
  then show "sorted_wrt (\<lambda>a b. f a b \<le> 0) (commands (add collate cmd p))"
    using f by (simp add: sorted_resorted)
qed

lemma threePalette_commands: "commands threePalette = [titled ''a'', titled ''b'', titled ''c'']"
  by (simp add: threePalette_def commands_setCommands newPalette_def defaultOptions_def)

lemma threePalette_options: "options threePalette = defaultOptions"
  by (simp add: threePalette_def setCommands_def Let_def onQueryChange_options newPalette_def
      defaultOptions_def)

lemma domainPalette_commands:
  "commands domainPalette = [hostEntry ''a.org'' 5, hostEntry ''b.org'' 3]"
  by (simp add: domainPalette_def commands_setCommands newPalette_def defaultOptions_def
      DomainPickerSortFunc_def countOf_def hostEntry_def titled_def)

lemma domainPalette_sort:
  "initialSortFunc (options domainPalette) = Some DomainPickerSortFunc"
  by (simp add: domainPalette_def setCommands_def Let_def onQueryChange_options newPalette_def
      defaultOptions_def)

theorem add_replaces_or_appends_witness:
  "\<not> truthy (entryId (titled ''d''))
   \<and> commands (add letterCollate (titled ''d'') threePalette)
       = [titled ''a'', titled ''b'', titled ''c'', titled ''d'']
   \<and> truthy (entryId (hostEntry ''b.org'' 9)) \<and> (1::nat) < length (commands domainPalette)
   \<and> entryId (commands domainPalette ! 1) = entryId (hostEntry ''b.org'' 9)
   \<and> entryId (commands domainPalette ! 0) \<noteq> entryId (hostEntry ''b.org'' 9)
   \<and> length (commands (add letterCollate (hostEntry ''b.org'' 9) domainPalette)) = 2
   \<and> commands (add letterCollate (hostEntry ''b.org'' 9) domainPalette)
       = [hostEntry ''b.org'' 9, hostEntry ''a.org'' 5]
   \<and> sorted_wrt (\<lambda>a b. DomainPickerSortFunc a b \<le> 0)
        (commands (add letterCollate (hostEntry ''b.org'' 9) domainPalette))"
proof -
  note d = domainPalette_commands
  have n: "\<not> truthy (entryId (titled ''d''))" by (simp add: truthy_def titled_def)
  have h: "truthy (entryId (hostEntry ''b.org'' 9)) \<and> (1::nat) < length (commands domainPalette)
   \<and> entryId (commands domainPalette ! 1) = entryId (hostEntry ''b.org'' 9)
   \<and> (\<forall>j<1. entryId (commands domainPalette ! j) \<noteq> entryId (hostEntry ''b.org'' 9))"
    by (simp add: d truthy_def hostEntry_def titled_def)
  have c: "initialSortFunc (options domainPalette) = Some DomainPickerSortFunc
        \<and> (\<forall>a b. DomainPickerSortFunc a b \<le> 0 \<or> DomainPickerSortFunc b a \<le> 0)
        \<and> (\<forall>a b c. DomainPickerSortFunc a b \<le> 0 \<longrightarrow> DomainPickerSortFunc b c \<le> 0
              \<longrightarrow> DomainPickerSortFunc a c \<le> 0)"
    by (auto simp: domainPalette_sort DomainPickerSortFunc_def Let_def)
  have r: "resorted domainPalette [hostEntry ''a.org'' 5, hostEntry ''b.org'' 9]
      = [hostEntry ''b.org'' 9, hostEntry ''a.org'' 5]"
    by (simp add: resorted_def domainPalette_sort DomainPickerSortFunc_def countOf_def
        hostEntry_def titled_def)
  have 1: "commands (add letterCollate (titled ''d'') threePalette)
       = [titled ''a'', titled ''b'', titled ''c'', titled ''d'']"
    using add_replaces_or_appends [where cmd = "titled ''d''" and p = threePalette
        and collate = letterCollate] n
    by (simp add: threePalette_commands threePalette_options defaultOptions_def)
  have 2: "length (commands (add letterCollate (hostEntry ''b.org'' 9) domainPalette))
       = length (commands domainPalette)
   \<and> commands (add letterCollate (hostEntry ''b.org'' 9) domainPalette)
       = resorted domainPalette ((commands domainPalette)[1 := hostEntry ''b.org'' 9])
   \<and> sorted_wrt (\<lambda>a b. DomainPickerSortFunc a b \<le> 0)
        (commands (add letterCollate (hostEntry ''b.org'' 9) domainPalette))"
    using add_replaces_or_appends [where cmd = "hostEntry ''b.org'' 9" and i = 1
        and p = domainPalette and collate = letterCollate and f = DomainPickerSortFunc] h c
    by blast
  have h0: "truthy (entryId (hostEntry ''b.org'' 9)) \<and> (1::nat) < length (commands domainPalette)
   \<and> entryId (commands domainPalette ! 1) = entryId (hostEntry ''b.org'' 9)
   \<and> entryId (commands domainPalette ! 0) \<noteq> entryId (hostEntry ''b.org'' 9)"
    by (simp add: d truthy_def hostEntry_def titled_def)
  from 2 have "length (commands (add letterCollate (hostEntry ''b.org'' 9) domainPalette))
       = length (commands domainPalette)"
    by blast
  then have l: "length (commands (add letterCollate (hostEntry ''b.org'' 9) domainPalette)) = 2"
    by (simp only: d) simp
  from 2 have "commands (add letterCollate (hostEntry ''b.org'' 9) domainPalette)
       = resorted domainPalette ((commands domainPalette)[1 := hostEntry ''b.org'' 9])"
    by blast
  also have "\<dots> = [hostEntry ''b.org'' 9, hostEntry ''a.org'' 5]"
    unfolding d using r by simp
  finally have 3: "commands (add letterCollate (hostEntry ''b.org'' 9) domainPalette)
       = [hostEntry ''b.org'' 9, hostEntry ''a.org'' 5]" .
  have 4: "sorted_wrt (\<lambda>a b. DomainPickerSortFunc a b \<le> 0)
        (commands (add letterCollate (hostEntry ''b.org'' 9) domainPalette))"
    using 2 by blast
  show ?thesis
    using n 1 h0 l 3 4 by blast
qed

text \<open>
  C5 as stated fails on the position. The domain pickers sort by \<open>count\<close>. With the
  hosts \<open>a.org\<close> (5 tabs) and \<open>b.org\<close> (3 tabs), adding an entry with the id \<open>b.org\<close>
  and 9 tabs replaces the entry at position 1, and the sort in \<open>setCommands\<close> then moves
  it to position 0.
\<close>

theorem add_resorted_counterexample:
  "map entryId (commands domainPalette) = [Some ''a.org'', Some ''b.org'']
   \<and> map entryId (commands (add letterCollate (hostEntry ''b.org'' 9) domainPalette))
       = [Some ''b.org'', Some ''a.org'']
   \<and> map countOf (commands (add letterCollate (hostEntry ''b.org'' 9) domainPalette)) = [9, 5]"
proof -
  have o: "initialSortFunc (options domainPalette) = Some DomainPickerSortFunc"
    by (simp add: domainPalette_def setCommands_def Let_def onQueryChange_options newPalette_def
        defaultOptions_def)
  have d: "commands domainPalette = [hostEntry ''a.org'' 5, hostEntry ''b.org'' 3]"
    by (simp add: domainPalette_def commands_setCommands newPalette_def defaultOptions_def
        DomainPickerSortFunc_def countOf_def hostEntry_def titled_def)
  have "add letterCollate (hostEntry ''b.org'' 9) domainPalette =
     setCommands letterCollate (ArrayOf ((commands domainPalette)[1 := hostEntry ''b.org'' 9]))
       (domainPalette\<lparr>commands := (commands domainPalette)[1 := hostEntry ''b.org'' 9]\<rparr>)"
    by (rule add_replace) (simp_all add: d truthy_def hostEntry_def titled_def)
  then have "commands (add letterCollate (hostEntry ''b.org'' 9) domainPalette)
      = [hostEntry ''b.org'' 9, hostEntry ''a.org'' 5]"
    by (simp add: commands_setCommands o d DomainPickerSortFunc_def countOf_def hostEntry_def
        titled_def)
  then show ?thesis by (simp add: d hostEntry_def titled_def countOf_def)
qed
lemma mset_splice1:
  assumes "i < length xs"
  shows "mset (splice1 i xs) = mset xs - {#xs ! i#}"
proof -
  have "mset (take i xs @ xs ! i # drop (Suc i) xs) = mset xs"
    by (simp only: id_take_nth_drop [OF assms, symmetric])
  then have "mset xs = add_mset (xs ! i) (mset (take i xs) + mset (drop (Suc i) xs))"
    by simp
  then show ?thesis by (simp add: splice1_def)
qed

lemma length_splice1: "i < length xs \<Longrightarrow> length (splice1 i xs) = length xs - 1"
  by (auto simp: splice1_def)

lemma spliceStart_inside:
  "0 \<le> r \<Longrightarrow> r < of_nat n \<Longrightarrow> spliceStart (Finite r) n = nat \<lfloor>r\<rfloor> \<and> nat \<lfloor>r\<rfloor> < n"
proof -
  assume a: "0 \<le> r" "r < of_nat n"
  have "0 \<le> \<lfloor>r\<rfloor>" using a by simp
  moreover have "\<lfloor>r\<rfloor> < int n" using a by (simp add: floor_less_iff)
  ultimately show ?thesis using a by (simp add: Let_def)
qed

lemma remove_Index_inside:
  "0 \<le> r \<Longrightarrow> r < of_nat (length (commands p)) \<Longrightarrow>
   remove collate (Index (Finite r)) p =
     setCommands collate (ArrayOf (splice1 (nat \<lfloor>r\<rfloor>) (commands p)))
       (p\<lparr>commands := splice1 (nat \<lfloor>r\<rfloor>) (commands p)\<rparr>)"
  using spliceStart_inside [of r "length (commands p)"]
  by (simp add: remove_def Let_def del: spliceStart.simps)

lemma remove_Index_NaN:
  "remove collate (Index NaN) p =
     setCommands collate (ArrayOf (splice1 0 (commands p))) (p\<lparr>commands := splice1 0 (commands p)\<rparr>)"
  by (simp add: remove_def Let_def)

lemma remove_by_id:
  assumes "s \<noteq> []" "i < length (commands p)" "entryId (commands p ! i) = Some s"
    "\<forall>j<i. entryId (commands p ! j) \<noteq> Some s"
    "ident = IdString s \<or> (\<exists>e. ident = EntryRef e \<and> entryId e = Some s)"
  shows "remove collate ident p =
     setCommands collate (ArrayOf (splice1 i (commands p))) (p\<lparr>commands := splice1 i (commands p)\<rparr>)"
proof -
  have "findIndex (\<lambda>obj. entryId obj = Some s) (commands p) = int i"
    using assms by (intro findIndex_first) auto
  then show ?thesis
    using assms(1,5) by (auto simp: remove_def Let_def truthy_def)
qed

lemma remove_noop:
  "r < 0 \<or> of_nat (length (commands p)) \<le> r \<Longrightarrow> remove collate (Index (Finite r)) p = p"
  "remove collate (Index PosInfinity) p = p"
  "remove collate (Index NegInfinity) p = p"
  "\<forall>x\<in>set (commands p). entryId x \<noteq> Some s \<Longrightarrow> remove collate (IdString s) p = p"
  "\<not> truthy (entryId e) \<or> (\<forall>x\<in>set (commands p). entryId x \<noteq> entryId e) \<Longrightarrow>
     remove collate (EntryRef e) p = p"
  "remove collate Nullish p = p"
  by (auto simp: remove_def Let_def truthy_def findIndex_none split: option.splits)

text \<open>
  C6, as the code has it. \<open>remove\<close> takes an id string, an entry or a number. An entry
  is looked up by its id, not by reference: an entry without an id removes nothing, even
  when it is in the list. A number that is negative or not below \<open>len(commands)\<close>
  (an infinity too), an id that no command has, an entry whose id is missing or that no
  command has, and \<open>null\<close> leave the palette as it is: nothing is removed and nothing
  is thrown. A number \<open>r\<close> with \<open>0 \<le> r < len(commands)\<close> removes the command at the
  position \<open>r\<close> truncated to an integer, \<open>NaN\<close> removes the first command, and a
  non-empty id (given as a string or carried by an entry) removes the first command with
  that id. The command list is then the old one without that element, sorted again by
  \<open>initialSortFunc\<close> when one is configured.
\<close>

theorem remove_first_match_or_noop:
  "(r < 0 \<or> of_nat (length (commands p)) \<le> r \<longrightarrow> remove collate (Index (Finite r)) p = p)
   \<and> remove collate (Index PosInfinity) p = p
   \<and> remove collate (Index NegInfinity) p = p
   \<and> ((\<forall>x\<in>set (commands p). entryId x \<noteq> Some s) \<longrightarrow> remove collate (IdString s) p = p)
   \<and> (\<not> truthy (entryId e) \<or> (\<forall>x\<in>set (commands p). entryId x \<noteq> entryId e) \<longrightarrow>
        remove collate (EntryRef e) p = p)
   \<and> remove collate Nullish p = p
   \<and> (0 \<le> r \<and> r < of_nat (length (commands p)) \<longrightarrow>
        commands (remove collate (Index (Finite r)) p)
          = resorted p (take (nat \<lfloor>r\<rfloor>) (commands p) @ drop (nat \<lfloor>r\<rfloor> + 1) (commands p))
        \<and> mset (commands (remove collate (Index (Finite r)) p))
          = mset (commands p) - {#commands p ! nat \<lfloor>r\<rfloor>#}
        \<and> length (commands (remove collate (Index (Finite r)) p)) = length (commands p) - 1)
   \<and> (commands p \<noteq> [] \<longrightarrow>
        commands (remove collate (Index NaN) p) = resorted p (drop 1 (commands p))
        \<and> mset (commands (remove collate (Index NaN) p)) = mset (commands p) - {#commands p ! 0#}
        \<and> length (commands (remove collate (Index NaN) p)) = length (commands p) - 1)
   \<and> (s \<noteq> [] \<and> i < length (commands p) \<and> entryId (commands p ! i) = Some s
        \<and> (\<forall>j<i. entryId (commands p ! j) \<noteq> Some s)
        \<and> (ident = IdString s \<or> (\<exists>e'. ident = EntryRef e' \<and> entryId e' = Some s)) \<longrightarrow>
        commands (remove collate ident p)
          = resorted p (take i (commands p) @ drop (i + 1) (commands p))
        \<and> mset (commands (remove collate ident p)) = mset (commands p) - {#commands p ! i#}
        \<and> length (commands (remove collate ident p)) = length (commands p) - 1)"
proof -
  have removed: "commands q = resorted p (take k (commands p) @ drop (k + 1) (commands p))
        \<and> mset (commands q) = mset (commands p) - {#commands p ! k#}
        \<and> length (commands q) = length (commands p) - 1"
    if q: "q = setCommands collate (ArrayOf (splice1 k (commands p)))
             (p\<lparr>commands := splice1 k (commands p)\<rparr>)"
      and k: "k < length (commands p)" for q k
  proof -
    have c: "commands q = resorted p (splice1 k (commands p))"
      unfolding q commands_setCommands_resorted by (simp add: resorted_def)
    then have m: "mset (commands q) = mset (splice1 k (commands p))"
      by (simp add: mset_resorted)
    then have "length (commands q) = length (splice1 k (commands p))"
      by (metis size_mset)
    then show ?thesis
      using c m k by (simp add: mset_splice1 length_splice1) (simp add: splice1_def)
  qed
  have byIndex: "0 \<le> r \<and> r < of_nat (length (commands p)) \<longrightarrow>
        commands (remove collate (Index (Finite r)) p)
          = resorted p (take (nat \<lfloor>r\<rfloor>) (commands p) @ drop (nat \<lfloor>r\<rfloor> + 1) (commands p))
        \<and> mset (commands (remove collate (Index (Finite r)) p))
          = mset (commands p) - {#commands p ! nat \<lfloor>r\<rfloor>#}
        \<and> length (commands (remove collate (Index (Finite r)) p)) = length (commands p) - 1"
  proof
    assume a: "0 \<le> r \<and> r < of_nat (length (commands p))"
    then have "nat \<lfloor>r\<rfloor> < length (commands p)"
      using spliceStart_inside [of r "length (commands p)"] by simp
    with a show "commands (remove collate (Index (Finite r)) p)
          = resorted p (take (nat \<lfloor>r\<rfloor>) (commands p) @ drop (nat \<lfloor>r\<rfloor> + 1) (commands p))
        \<and> mset (commands (remove collate (Index (Finite r)) p))
          = mset (commands p) - {#commands p ! nat \<lfloor>r\<rfloor>#}
        \<and> length (commands (remove collate (Index (Finite r)) p)) = length (commands p) - 1"
      by (intro removed remove_Index_inside) auto
  qed
  have byNaN: "commands p \<noteq> [] \<longrightarrow>
        commands (remove collate (Index NaN) p) = resorted p (drop 1 (commands p))
        \<and> mset (commands (remove collate (Index NaN) p)) = mset (commands p) - {#commands p ! 0#}
        \<and> length (commands (remove collate (Index NaN) p)) = length (commands p) - 1"
  proof
    assume "commands p \<noteq> []"
    then have pos: "0 < length (commands p)" by simp
    have eq: "take 0 (commands p) @ drop (0 + 1) (commands p) = drop 1 (commands p)" by simp
    from removed [OF remove_Index_NaN pos]
    show "commands (remove collate (Index NaN) p) = resorted p (drop 1 (commands p))
        \<and> mset (commands (remove collate (Index NaN) p)) = mset (commands p) - {#commands p ! 0#}
        \<and> length (commands (remove collate (Index NaN) p)) = length (commands p) - 1"
      unfolding eq .
  qed
  have byId: "s \<noteq> [] \<and> i < length (commands p) \<and> entryId (commands p ! i) = Some s
        \<and> (\<forall>j<i. entryId (commands p ! j) \<noteq> Some s)
        \<and> (ident = IdString s \<or> (\<exists>e'. ident = EntryRef e' \<and> entryId e' = Some s)) \<longrightarrow>
        commands (remove collate ident p)
          = resorted p (take i (commands p) @ drop (i + 1) (commands p))
        \<and> mset (commands (remove collate ident p)) = mset (commands p) - {#commands p ! i#}
        \<and> length (commands (remove collate ident p)) = length (commands p) - 1"
  proof
    assume a: "s \<noteq> [] \<and> i < length (commands p) \<and> entryId (commands p ! i) = Some s
        \<and> (\<forall>j<i. entryId (commands p ! j) \<noteq> Some s)
        \<and> (ident = IdString s \<or> (\<exists>e'. ident = EntryRef e' \<and> entryId e' = Some s))"
    then have "remove collate ident p =
       setCommands collate (ArrayOf (splice1 i (commands p))) (p\<lparr>commands := splice1 i (commands p)\<rparr>)"
      by (intro remove_by_id [of s]) blast+
    with a show "commands (remove collate ident p)
          = resorted p (take i (commands p) @ drop (i + 1) (commands p))
        \<and> mset (commands (remove collate ident p)) = mset (commands p) - {#commands p ! i#}
        \<and> length (commands (remove collate ident p)) = length (commands p) - 1"
      by (intro removed) auto
  qed
  show ?thesis
    using remove_noop(1) [where r = r and p = p and collate = collate]
      remove_noop(2) [where p = p and collate = collate]
      remove_noop(3) [where p = p and collate = collate]
      remove_noop(4) [where p = p and s = s and collate = collate]
      remove_noop(5) [where e = e and p = p and collate = collate]
      remove_noop(6) [where p = p and collate = collate] byIndex byNaN byId
    by blast
qed

theorem remove_first_match_or_noop_witness:
  "remove letterCollate (Index (Finite 3)) threePalette = threePalette
   \<and> remove letterCollate (Index (Finite (- 1))) threePalette = threePalette
   \<and> remove letterCollate (IdString ''missing'') threePalette = threePalette
   \<and> commands (remove letterCollate (Index (Finite 1)) threePalette) = [titled ''a'', titled ''c'']
   \<and> commands (remove letterCollate (IdString ''b.org'') domainPalette) = [hostEntry ''a.org'' 5]"
proof -
  have c: "commands threePalette = [titled ''a'', titled ''b'', titled ''c'']"
    by (rule threePalette_commands)
  have o: "resorted threePalette xs = xs" for xs
    by (simp add: resorted_def threePalette_options defaultOptions_def)
  have ids: "\<forall>x\<in>set (commands threePalette). entryId x \<noteq> Some ''missing''"
    by (simp add: c titled_def)
  have "remove letterCollate (Index (Finite 3)) threePalette = threePalette"
    using remove_first_match_or_noop [where r = 3 and p = threePalette and collate = letterCollate]
    by (simp add: c)
  moreover have "remove letterCollate (Index (Finite (- 1))) threePalette = threePalette"
    using remove_first_match_or_noop [where r = "- 1" and p = threePalette and collate = letterCollate]
    by simp
  moreover have "remove letterCollate (IdString ''missing'') threePalette = threePalette"
    using remove_first_match_or_noop [where p = threePalette and collate = letterCollate
        and s = "''missing''"] ids by blast
  moreover have "commands (remove letterCollate (Index (Finite 1)) threePalette) = [titled ''a'', titled ''c'']"
    using remove_first_match_or_noop [where r = 1 and p = threePalette and collate = letterCollate] o
    by (simp add: c)
  moreover have "commands (remove letterCollate (IdString ''b.org'') domainPalette) = [hostEntry ''a.org'' 5]"
    using remove_first_match_or_noop [where p = domainPalette and collate = letterCollate
        and s = "''b.org''" and i = 1 and ident = "IdString ''b.org''"]
    by (simp add: domainPalette_commands resorted_def domainPalette_sort hostEntry_def titled_def)
  ultimately show ?thesis by blast
qed

text \<open>
  C6 as stated fails in two ways. An entry is not matched by reference: the second of
  three commands without ids, passed to \<open>remove\<close> as an entry, stays in the list. And a
  number outside \<open>[0, len(commands) - 1]\<close> is not always a no-op: with three commands
  \<open>2.9\<close> is above 2 and yet below the length, so the guard lets it pass and \<open>splice\<close>
  removes the command at position 2; \<open>NaN\<close> fails both comparisons of the guard and
  removes the first command.
\<close>

theorem remove_reference_and_fraction_counterexample:
  "commands threePalette = [titled ''a'', titled ''b'', titled ''c'']
   \<and> remove letterCollate (EntryRef (titled ''b'')) threePalette = threePalette
   \<and> commands (remove letterCollate (Index (Finite (29 / 10))) threePalette)
       = [titled ''a'', titled ''b'']
   \<and> commands (remove letterCollate (Index NaN) threePalette) = [titled ''b'', titled ''c'']"
proof -
  have c: "commands threePalette = [titled ''a'', titled ''b'', titled ''c'']"
    by (rule threePalette_commands)
  have o: "resorted (threePalette\<lparr>commands := ys\<rparr>) xs = xs" for xs ys
    by (simp add: resorted_def threePalette_options defaultOptions_def)
  have "remove letterCollate (EntryRef (titled ''b'')) threePalette = threePalette"
    by (simp add: remove_def Let_def truthy_def titled_def)
  moreover have "\<lfloor>29 / 10 :: rat\<rfloor> = 2" by (rule floor_unique) simp_all
  then have "commands (remove letterCollate (Index (Finite (29 / 10))) threePalette)
       = [titled ''a'', titled ''b'']"
    using remove_Index_inside [of "29 / 10" threePalette letterCollate]
    by (simp add: c commands_setCommands_resorted o splice1_def)
  moreover have "commands (remove letterCollate (Index NaN) threePalette) = [titled ''b'', titled ''c'']"
    by (simp add: remove_Index_NaN c commands_setCommands_resorted o splice1_def)
  ultimately show ?thesis using c by blast
qed

section \<open>Properties of highlighting\<close>





















section \<open>Properties of running a command\<close>

lemma hide_fields:
  "dialogOpen (hide p) = False"
  "effects (hide p) = effects p @ [HideCalled]"
  "console (hide p) = console p"
  "pendingRejections (hide p) = pendingRejections p"
  by (simp_all add: hide_def Let_def)

text \<open>
  C9. \<open>_runCommand\<close> never lets an error out. For an entry without a runnable action
  it writes a warning and changes nothing else. For an entry with one it first calls
  \<open>hide\<close> and then the action, so the dialog is closed at the call. An action that
  throws is reported with \<open>console.error\<close>. An action that returns a promise which
  rejects is not reported at once: the rejection waits with a handler, which reports it
  when the microtasks run.
\<close>

theorem runCommand_contains_errors:
  "(\<exists>p'. runCommand entry p = Inr p')
   \<and> (run entry = None \<longrightarrow>
        runCommand entry p
          = Inr (p\<lparr>console := console p @ [ConsoleWarn ''Command has no run() function'']\<rparr>))
   \<and> (run entry = Some res \<longrightarrow>
        (\<exists>p'. runCommand entry p = Inr p'
           \<and> effects p' = effects p @ [HideCalled, RunInvoked entry]
           \<and> \<not> dialogOpen p'
           \<and> (res = Returns \<or> res = Deferred None \<longrightarrow>
                console p' = console p \<and> pendingRejections p' = pendingRejections p)
           \<and> (res = Throws err \<longrightarrow>
                console p' = console p @ [ConsoleError ''Command execution failed'' err]
                \<and> pendingRejections p' = pendingRejections p)
           \<and> (res = Deferred (Some err) \<longrightarrow>
                console p' = console p
                \<and> pendingRejections p' = pendingRejections p @ [err]
                \<and> console (runMicrotasks p')
                    = console p @ map (ConsoleError ''Command error:'') (pendingRejections p @ [err])
                \<and> pendingRejections (runMicrotasks p') = [])))"
proof (cases "run entry")
  case None
  then show ?thesis by (simp add: runCommand_def runCommandTry_def)
next
  case (Some r)
  define p2 where "p2 = (hide p)\<lparr>effects := effects (hide p) @ [RunInvoked entry]\<rparr>"
  have f: "effects p2 = effects p @ [HideCalled, RunInvoked entry]" "\<not> dialogOpen p2"
    "console p2 = console p" "pendingRejections p2 = pendingRejections p"
    by (simp_all add: p2_def hide_fields)
  have t: "runCommandTry entry p =
      (case r of Returns \<Rightarrow> Inr p2 | Throws e \<Rightarrow> Inl (e, p2) | Deferred None \<Rightarrow> Inr p2
       | Deferred (Some e) \<Rightarrow> Inr (p2\<lparr>pendingRejections := pendingRejections p2 @ [e]\<rparr>))"
    using Some unfolding runCommandTry_def Let_def p2_def by simp
  show ?thesis
  proof (cases r)
    case Returns
    then have "runCommand entry p = Inr p2" by (simp add: runCommand_def t)
    with Some Returns f show ?thesis by auto
  next
    case (Throws e)
    then have "runCommand entry p
        = Inr (p2\<lparr>console := console p2 @ [ConsoleError ''Command execution failed'' e]\<rparr>)"
      by (simp add: runCommand_def t)
    with Some Throws f show ?thesis by auto
  next
    case (Deferred d)
    show ?thesis
    proof (cases d)
      case None
      then have "runCommand entry p = Inr p2" using Deferred by (simp add: runCommand_def t)
      with Some Deferred None f show ?thesis by auto
    next
      case (Some e)
      then have "runCommand entry p = Inr (p2\<lparr>pendingRejections := pendingRejections p2 @ [e]\<rparr>)"
        using Deferred by (simp add: runCommand_def t)
      with \<open>run entry = Some r\<close> Deferred Some f show ?thesis
        by (auto simp: runMicrotasks_def)
    qed
  qed
qed

lemma newPalette_log:
  "console (newPalette opts) = []" "effects (newPalette opts) = []"
  "pendingRejections (newPalette opts) = []"
  by (simp_all add: newPalette_def)

theorem runCommand_contains_errors_witness:
  "run (titled ''New Window'') = None
   \<and> runCommand (titled ''New Window'') (newPalette defaultOptions)
       = Inr ((newPalette defaultOptions)\<lparr>console := [ConsoleWarn ''Command has no run() function'']\<rparr>)
   \<and> run throwingEntry = Some (Throws ''boom'')
   \<and> (\<exists>p'. runCommand throwingEntry (newPalette defaultOptions) = Inr p'
         \<and> effects p' = [HideCalled, RunInvoked throwingEntry]
         \<and> console p' = [ConsoleError ''Command execution failed'' ''boom''])
   \<and> run rejectingEntry = Some (Deferred (Some ''late''))
   \<and> (\<exists>p'. runCommand rejectingEntry (newPalette defaultOptions) = Inr p'
         \<and> console p' = []
         \<and> console (runMicrotasks p') = [ConsoleError ''Command error:'' ''late''])"
proof -
  have n: "run (titled ''New Window'') = None" by (simp add: titled_def)
  have t: "run throwingEntry = Some (Throws ''boom'')" by (simp add: throwingEntry_def)
  have d: "run rejectingEntry = Some (Deferred (Some ''late''))" by (simp add: rejectingEntry_def)
  have "runCommand (titled ''New Window'') (newPalette defaultOptions)
       = Inr ((newPalette defaultOptions)\<lparr>console := [ConsoleWarn ''Command has no run() function'']\<rparr>)"
    using runCommand_contains_errors [of "titled ''New Window''" "newPalette defaultOptions"] n
    by (simp add: newPalette_log)
  moreover have "\<exists>p'. runCommand throwingEntry (newPalette defaultOptions) = Inr p'
         \<and> effects p' = [HideCalled, RunInvoked throwingEntry]
         \<and> console p' = [ConsoleError ''Command execution failed'' ''boom'']"
    using runCommand_contains_errors [of throwingEntry "newPalette defaultOptions" "Throws ''boom''" "''boom''"] t
    by (auto simp: newPalette_log)
  moreover have "\<exists>p'. runCommand rejectingEntry (newPalette defaultOptions) = Inr p'
         \<and> console p' = []
         \<and> console (runMicrotasks p') = [ConsoleError ''Command error:'' ''late'']"
    using runCommand_contains_errors [of rejectingEntry "newPalette defaultOptions"
        "Deferred (Some ''late'')" "''late''"] d
    by (auto simp: newPalette_log)
  ultimately show ?thesis using n t d by blast
qed
section \<open>Properties of population\<close>

lemma onQueryChange_log:
  "console (onQueryChange collate p) = console p"
  "dialogOpen (onQueryChange collate p) = dialogOpen p"
  "ranOnce (onQueryChange collate p) = ranOnce p"
  by (subst onQueryChange_unfold, simp)+

lemma setCommands_log:
  "console (setCommands collate list p) = console p"
  "dialogOpen (setCommands collate list p) = dialogOpen p"
  "options (setCommands collate list p) = options p"
  "ranOnce (setCommands collate list p) = ranOnce p"
  unfolding setCommands_def Let_def onQueryChange_log onQueryChange_options
  by (simp_all split: option.splits)


lemma populate_Inr:
  "populate collate populateFunc p = Inr p' \<Longrightarrow>
   console p' = console p \<and> dialogOpen p' = dialogOpen p \<and> options p' = options p"
  by (auto simp: populate_def setCommands_log split: populated.splits)






section \<open>Properties of setCommands\<close>

lemma onQueryChange_filtered_irrelevant:
  "onQueryChange collate (p\<lparr>filtered := A\<rparr>) = onQueryChange collate p"
proof -
  define F where "F = filtered (onQueryChange collate p)"
  have Feq: "filtered (onQueryChange collate (p\<lparr>filtered := A\<rparr>)) = F"
    unfolding F_def by (simp add: filtered_onQueryChange filterCommands_def)
  have "onQueryChange collate (p\<lparr>filtered := A\<rparr>) =
      (p\<lparr>filtered := A\<rparr>)\<lparr>filtered := filtered (onQueryChange collate (p\<lparr>filtered := A\<rparr>)),
        selectedIndex := max 0 (min (selectedIndex (p\<lparr>filtered := A\<rparr>))
          (max 0 (int (length (filtered (onQueryChange collate (p\<lparr>filtered := A\<rparr>)))) - 1)))\<rparr>"
    by (rule onQueryChange_unfold)
  also have "\<dots> = p\<lparr>filtered := F,
        selectedIndex := max 0 (min (selectedIndex p) (max 0 (int (length F) - 1)))\<rparr>"
    unfolding Feq by simp
  also have "\<dots> = onQueryChange collate p"
    unfolding F_def by (rule onQueryChange_unfold [symmetric])
  finally show ?thesis .
qed

lemma setCommandsRef_result:
  "setCommandsRef collate list (rp, h) =
     (\<lparr>commandsRef = nextAddr h, filteredRef = nextAddr h + 1,
       pal = setCommands collate (argOf h list) (pal rp)\<rparr>,
      h\<lparr>arrays := (arrays h)
           (nextAddr h \<mapsto> commands (setCommands collate (argOf h list) (pal rp)),
            nextAddr h + 1 \<mapsto> filtered (setCommands collate (argOf h list) (pal rp))),
        nextAddr := nextAddr h + 2\<rparr>)"
proof -
  define xs where "xs = (case list of ArrayRef a \<Rightarrow> contents h a | _ \<Rightarrow> [])"
  define P where "P = setCommands collate (argOf h list) (pal rp)"
  define n where "n = nextAddr h"
  have arg: "(case argOf h list of ArrayOf ys \<Rightarrow> ys | NotArray \<Rightarrow> []) = xs"
    by (cases "list") (simp_all add: argOf_def xs_def)
  show ?thesis
  proof (cases "initialSortFunc (options (pal rp))")
    case None
    have P1: "P = onQueryChange collate ((pal rp)\<lparr>commands := xs\<rparr>)"
      unfolding P_def setCommands_def Let_def arg using None by simp
    have cP: "commands P = xs"
      unfolding P1 onQueryChange_commands by simp
    have "onQueryChange collate ((pal rp)\<lparr>commands := xs, filtered := B\<rparr>) = P" for B
      unfolding P1 using onQueryChange_filtered_irrelevant [where collate = collate and p = "(pal rp)\<lparr>commands := xs\<rparr>" and A = B]
      by simp
    then show ?thesis
      unfolding setCommandsRef_def alloc_def using None
      by (simp add: Let_def contents_def xs_def [symmetric] P_def [symmetric] cP n_def [symmetric])
  next
    case (Some sf)
    have P1: "P = onQueryChange collate ((pal rp)\<lparr>commands := arraySort sf xs, filtered := arraySort sf xs\<rparr>)"
      unfolding P_def setCommands_def Let_def arg using Some by simp
    have cP: "commands P = arraySort sf xs"
      unfolding P1 onQueryChange_commands by simp
    show ?thesis
      unfolding setCommandsRef_def alloc_def writeArray_def using Some
      by (simp add: Let_def contents_def xs_def [symmetric] P1 [symmetric] P_def [symmetric] cP
          n_def [symmetric])
  qed
qed

text \<open>
  C10. For an argument that is not an array (\<open>null\<close>, \<open>undefined\<close>, a string, a number,
  an object), \<open>setCommands\<close> ends normally with an empty command list. For an array it
  stores a copy: \<open>this.commands\<close> is a new array, at another address than the caller's,
  with the same entries (in the same order unless an \<open>initialSortFunc\<close> sorts them); the
  caller's array is not changed, and whatever the caller writes to its array afterwards
  changes neither \<open>this.commands\<close> nor \<open>this.filtered\<close>. The palette read through its
  references is the one that \<open>setCommands\<close> on values gives.
\<close>

theorem setCommands_stores_copy:
  assumes "setCommandsRef collate list (rp, h) = (rp', h')"
  shows "(\<not> isArray list \<longrightarrow> commands (pal rp') = [] \<and> contents h' (commandsRef rp') = [])
   \<and> (list = ArrayRef a \<and> a < nextAddr h \<longrightarrow>
        commandsRef rp' \<noteq> a \<and> filteredRef rp' \<noteq> a
        \<and> mset (contents h' (commandsRef rp')) = mset (contents h a)
        \<and> (initialSortFunc (options (pal rp)) = None \<longrightarrow>
             contents h' (commandsRef rp') = contents h a)
        \<and> contents h' a = contents h a
        \<and> contents (writeArray a ys h') (commandsRef rp') = contents h' (commandsRef rp')
        \<and> contents (writeArray a ys h') (filteredRef rp') = contents h' (filteredRef rp'))
   \<and> pal rp' = setCommands collate (argOf h list) (pal rp)
   \<and> contents h' (commandsRef rp') = commands (pal rp')
   \<and> contents h' (filteredRef rp') = filtered (pal rp')"
proof -
  define P where "P = setCommands collate (argOf h list) (pal rp)"
  have rp': "rp' = \<lparr>commandsRef = nextAddr h, filteredRef = nextAddr h + 1, pal = P\<rparr>"
    and h': "h' = h\<lparr>arrays := (arrays h)(nextAddr h \<mapsto> commands P, nextAddr h + 1 \<mapsto> filtered P),
        nextAddr := nextAddr h + 2\<rparr>"
    using assms unfolding setCommandsRef_result P_def by simp_all
  have view: "pal rp' = P" "contents h' (commandsRef rp') = commands P"
    "contents h' (filteredRef rp') = filtered P"
    by (simp_all add: rp' h' contents_def)
  have notArray: "commands P = []" if "\<not> isArray list"
    using that unfolding P_def by (cases "list") (simp_all add: argOf_def commands_setCommands_NotArray)
  have array: "commandsRef rp' \<noteq> a \<and> filteredRef rp' \<noteq> a
        \<and> mset (contents h' (commandsRef rp')) = mset (contents h a)
        \<and> (initialSortFunc (options (pal rp)) = None \<longrightarrow>
             contents h' (commandsRef rp') = contents h a)
        \<and> contents h' a = contents h a
        \<and> contents (writeArray a ys h') (commandsRef rp') = contents h' (commandsRef rp')
        \<and> contents (writeArray a ys h') (filteredRef rp') = contents h' (filteredRef rp')"
    if l: "list = ArrayRef a" and a: "a < nextAddr h"
  proof -
    have P': "P = setCommands collate (ArrayOf (contents h a)) (pal rp)"
      unfolding P_def l by (simp add: argOf_def)
    have "mset (commands P) = mset (contents h a)"
      unfolding P' by (rule commands_setCommands_mset)
    moreover have "commands P = contents h a" if "initialSortFunc (options (pal rp)) = None"
      unfolding P' using that by (rule commands_setCommands_unsorted)
    moreover have "contents h' a = contents h a"
      using a by (simp add: h' contents_def)
    moreover have "contents (writeArray a ys h') (nextAddr h) = contents h' (nextAddr h)"
      "contents (writeArray a ys h') (nextAddr h + 1) = contents h' (nextAddr h + 1)"
      using a by (simp_all add: h' contents_def writeArray_def)
    ultimately show ?thesis
      using a view by (simp add: rp')
  qed
  show ?thesis
    using view notArray array unfolding P_def by simp
qed

lemma newStore_refs:
  "nextAddr newStore = 3" "contents newStore 0 = [titled ''a'', titled ''b'']"
  "initialSortFunc (options (pal newRefs)) = None"
  by (simp_all add: newStore_def newRefs_def contents_def newPalette_def defaultOptions_def)

theorem setCommands_stores_copy_witness:
  "contents (snd (setCommandsRef letterCollate (ArrayRef 0) (newRefs, newStore)))
       (commandsRef (fst (setCommandsRef letterCollate (ArrayRef 0) (newRefs, newStore))))
     = [titled ''a'', titled ''b'']
   \<and> contents (writeArray 0 [] (snd (setCommandsRef letterCollate (ArrayRef 0) (newRefs, newStore))))
       (commandsRef (fst (setCommandsRef letterCollate (ArrayRef 0) (newRefs, newStore))))
     = [titled ''a'', titled ''b'']
   \<and> commandsRef (fst (setCommandsRef letterCollate (ArrayRef 0) (newRefs, newStore))) \<noteq> 0
   \<and> commands (pal (fst (setCommandsRef letterCollate Null (newRefs, newStore)))) = []
   \<and> commands (pal (fst (setCommandsRef letterCollate (StringValue ''abc'') (newRefs, newStore)))) = []"
proof -
  have 1: "setCommandsRef letterCollate v (newRefs, newStore)
      = (fst (setCommandsRef letterCollate v (newRefs, newStore)),
         snd (setCommandsRef letterCollate v (newRefs, newStore)))" for v
    by simp
  have arr: "(0::nat) < nextAddr newStore" "ArrayRef 0 = ArrayRef 0"
    "initialSortFunc (options (pal newRefs)) = None"
    by (simp_all add: newStore_refs)
  have "contents (snd (setCommandsRef letterCollate (ArrayRef 0) (newRefs, newStore)))
       (commandsRef (fst (setCommandsRef letterCollate (ArrayRef 0) (newRefs, newStore))))
     = contents newStore 0
   \<and> contents (writeArray 0 [] (snd (setCommandsRef letterCollate (ArrayRef 0) (newRefs, newStore))))
       (commandsRef (fst (setCommandsRef letterCollate (ArrayRef 0) (newRefs, newStore))))
     = contents (snd (setCommandsRef letterCollate (ArrayRef 0) (newRefs, newStore)))
       (commandsRef (fst (setCommandsRef letterCollate (ArrayRef 0) (newRefs, newStore))))
   \<and> commandsRef (fst (setCommandsRef letterCollate (ArrayRef 0) (newRefs, newStore))) \<noteq> 0"
    using setCommands_stores_copy [OF 1 [of "ArrayRef 0"], where a = 0 and ys = "[]"] arr
    by blast
  moreover have "commands (pal (fst (setCommandsRef letterCollate Null (newRefs, newStore)))) = []"
    using setCommands_stores_copy [OF 1 [of Null]] isArray.simps(2) by blast
  moreover have "commands (pal (fst (setCommandsRef letterCollate (StringValue ''abc'') (newRefs, newStore)))) = []"
    using setCommands_stores_copy [OF 1 [of "StringValue ''abc''"]] isArray.simps(4) by blast
  ultimately show ?thesis
    by (simp add: newStore_refs)
qed

end
